theory Spec2Isabelle
  imports Complex_Main
begin

section \<open>JavaScript values used by the backend\<close>

text \<open>
  The server (\<^verbatim>\<open>server.js\<close>) works on JSON data.  Every object is modelled as a record
  whose fields have the type given in the data model; a field that is absent or \<^verbatim>\<open>null\<close>
  is \<open>None\<close> (the code only tests such fields with \<^verbatim>\<open>||\<close>, \<^verbatim>\<open>!\<close> or \<^verbatim>\<open>typeof\<close>, which do not
  tell the two apart).

  A JavaScript number is \<open>NaN\<close>, an infinity, or a finite value.  Finite values are kept
  as exact rationals: comparison, truthiness and \<^verbatim>\<open>Math.floor\<close> are exact on IEEE doubles
  and are modelled exactly; division and \<^verbatim>\<open>parseFloat\<close> keep the exact value where the
  engine rounds to the nearest double, and negative zero is identified with zero.
\<close>

datatype jsnum = NaN | NInf | Fin rat | PInf

fun js_lt :: "jsnum \<Rightarrow> jsnum \<Rightarrow> bool" where
  "js_lt NaN _ = False"
| "js_lt _ NaN = False"
| "js_lt _ NInf = False"
| "js_lt NInf _ = True"
| "js_lt PInf _ = False"
| "js_lt (Fin a) (Fin b) = (a < b)"
| "js_lt (Fin a) PInf = True"

fun js_le :: "jsnum \<Rightarrow> jsnum \<Rightarrow> bool" where
  "js_le NaN _ = False"
| "js_le _ NaN = False"
| "js_le NInf _ = True"
| "js_le _ PInf = True"
| "js_le PInf _ = False"
| "js_le _ NInf = False"
| "js_le (Fin a) (Fin b) = (a \<le> b)"

definition js_gt :: "jsnum \<Rightarrow> jsnum \<Rightarrow> bool" where
  "js_gt a b = js_lt b a"

definition js_ge :: "jsnum \<Rightarrow> jsnum \<Rightarrow> bool" where
  "js_ge a b = js_le b a"

fun js_sub :: "jsnum \<Rightarrow> jsnum \<Rightarrow> jsnum" where
  "js_sub NaN _ = NaN"
| "js_sub _ NaN = NaN"
| "js_sub (Fin a) (Fin b) = Fin (a - b)"
| "js_sub PInf PInf = NaN"
| "js_sub NInf NInf = NaN"
| "js_sub PInf _ = PInf"
| "js_sub NInf _ = NInf"
| "js_sub _ PInf = NInf"
| "js_sub _ NInf = PInf"

fun js_div :: "jsnum \<Rightarrow> jsnum \<Rightarrow> jsnum" where
  "js_div NaN _ = NaN"
| "js_div _ NaN = NaN"
| "js_div (Fin a) (Fin b) =
     (if b \<noteq> 0 then Fin (a / b)
      else if a = 0 then NaN else if 0 < a then PInf else NInf)"
| "js_div (Fin a) _ = Fin 0"
| "js_div PInf (Fin b) = (if 0 \<le> b then PInf else NInf)"
| "js_div NInf (Fin b) = (if 0 \<le> b then NInf else PInf)"
| "js_div _ _ = NaN"

fun js_floor :: "jsnum \<Rightarrow> jsnum" where
  "js_floor (Fin a) = Fin (of_int \<lfloor>a\<rfloor>)"
| "js_floor n = n"

fun js_min :: "jsnum \<Rightarrow> jsnum \<Rightarrow> jsnum" where
  "js_min NaN _ = NaN"
| "js_min _ NaN = NaN"
| "js_min a b = (if js_le a b then a else b)"

text \<open>Truthiness (\<^verbatim>\<open>ToBoolean\<close>) of a number and of an optional string.\<close>

fun truthy_num :: "jsnum \<Rightarrow> bool" where
  "truthy_num NaN = False"
| "truthy_num (Fin a) = (a \<noteq> 0)"
| "truthy_num _ = True"

fun truthy_str :: "string option \<Rightarrow> bool" where
  "truthy_str None = False"
| "truthy_str (Some s) = (s \<noteq> [])"

text \<open>\<^verbatim>\<open>x || d\<close> for an optional number and for an optional string.\<close>

definition num_or :: "jsnum option \<Rightarrow> jsnum \<Rightarrow> jsnum" where
  "num_or x d = (case x of Some n \<Rightarrow> if truthy_num n then n else d | None \<Rightarrow> d)"

definition str_or :: "string option \<Rightarrow> string \<Rightarrow> string" where
  "str_or x d = (case x of Some s \<Rightarrow> if s \<noteq> [] then s else d | None \<Rightarrow> d)"

text \<open>
  \<^verbatim>\<open>typeof x === 'number' ? x : d\<close>: a field of number type is \<open>Some n\<close> exactly when it
  holds a number.
\<close>

definition num_else :: "jsnum option \<Rightarrow> jsnum \<Rightarrow> jsnum" where
  "num_else x d = (case x of Some n \<Rightarrow> n | None \<Rightarrow> d)"

subsection \<open>Strings\<close>

text \<open>
  Strings are byte strings (UTF-8).  On a string of ASCII characters \<^verbatim>\<open>toUpperCase\<close> maps the
  letters \<^verbatim>\<open>a\<close> to \<^verbatim>\<open>z\<close> to \<^verbatim>\<open>A\<close> to \<^verbatim>\<open>Z\<close> and keeps every other character.  On a string
  with a character outside ASCII the result follows the case tables of Unicode, and may
  be longer than the string; there it is the parameter \<open>up\<close>, the function of the engine.
\<close>

definition upper_char :: "char \<Rightarrow> char" where
  "upper_char c =
     (let n = (of_char c :: nat)
      in if 97 \<le> n \<and> n \<le> 122 then char_of (n - 32) else c)"

definition is_ascii :: "string \<Rightarrow> bool" where
  "is_ascii s = list_all (\<lambda>c. (of_char c :: nat) < 128) s"

definition toUpperCase :: "(string \<Rightarrow> string) \<Rightarrow> string \<Rightarrow> string" where
  "toUpperCase up s = (if is_ascii s then map upper_char s else up s)"

definition digit_char :: "nat \<Rightarrow> char" where
  "digit_char d = char_of (48 + d)"

fun nat_to_string :: "nat \<Rightarrow> string" where
  "nat_to_string n =
     (if n < 10 then [digit_char n] else nat_to_string (n div 10) @ [digit_char (n mod 10)])"

definition int_to_string :: "int \<Rightarrow> string" where
  "int_to_string i = (if i < 0 then CHR ''-'' # nat_to_string (nat (- i)) else nat_to_string (nat i))"

text \<open>
  \<^verbatim>\<open>Number::toString\<close>, as a template literal applies it.  An integer of absolute value
  up to \<open>2^53\<close> prints its decimal digits.  For every other finite value the digits the
  engine prints are the shortest that read back as the same double; they are the
  parameter \<open>fmt\<close>.
\<close>

definition number_to_string :: "(rat \<Rightarrow> string) \<Rightarrow> jsnum \<Rightarrow> string" where
  "number_to_string fmt n =
     (case n of
        NaN \<Rightarrow> ''NaN''
      | PInf \<Rightarrow> ''Infinity''
      | NInf \<Rightarrow> ''-Infinity''
      | Fin q \<Rightarrow>
          (if q = of_int \<lfloor>q\<rfloor> \<and> \<bar>q\<bar> \<le> 9007199254740992 then int_to_string \<lfloor>q\<rfloor>
           else fmt q))"

section \<open>Tier rule matcher\<close>

text \<open>
  The metrics of a customer, a tier, a rule configuration and a recommendation, with the
  field names of the source; \<^verbatim>\<open>id\<close>, and the fields that a tier and a recommendation both
  have, carry a prefix.  A number field of a tier is \<open>Some n\<close> exactly when the field holds
  a number, a text field \<open>Some s\<close> exactly when it holds a string.  The elements of
  \<^verbatim>\<open>tiers\<close> are tier objects.
\<close>

record customer_metrics =
  customer_id :: int
  email :: "string option"
  firstName :: string
  lastName :: string
  totalOrders :: jsnum
  totalSpent :: jsnum
  averageOrderValue :: jsnum
  daysSinceLastOrder :: jsnum
  lastOrderDate :: "jsnum option"
  tags :: string
  state :: string

record tier =
  minTotalSpent :: "jsnum option"
  maxTotalSpent :: "jsnum option"
  minDaysSinceLastOrder :: "jsnum option"
  maxDaysSinceLastOrder :: "jsnum option"
  tier_discountPercent :: "jsnum option"
  discountCodePrefix :: "string option"
  tier_discountCode :: "string option"
  tier_rationale :: "string option"
  tier_messagingAngle :: "string option"
  tier_expectedValue :: "jsnum option"

text \<open>
  \<open>tiers\<close> is \<open>Some ts\<close> exactly when \<^verbatim>\<open>ruleConfig.tiers\<close> is an array; \<open>default_tier\<close> is
  \<open>Some d\<close> exactly when \<^verbatim>\<open>ruleConfig.default\<close> is truthy.
\<close>

record rule_config =
  tiers :: "tier list option"
  default_tier :: "tier option"

record recommendation =
  customerId :: int
  rec_email :: "string option"
  discountPercent :: jsnum
  discountCode :: string
  rationale :: string
  messagingAngle :: string
  expectedValue :: "jsnum option"

text \<open>The en dash of the generated rationale, in UTF-8.\<close>

definition en_dash :: string where
  "en_dash = [char_of (226::nat), char_of (128::nat), char_of (147::nat)]"

text \<open>The loop \<^verbatim>\<open>for (const tier of tiers)\<close> of \<^verbatim>\<open>applyRuleConfigToCustomer\<close>.\<close>

fun tier_loop :: "(rat \<Rightarrow> string) \<Rightarrow> (string \<Rightarrow> string) \<Rightarrow> customer_metrics \<Rightarrow> tier list \<Rightarrow> recommendation option" where
  "tier_loop fmt up customer [] = None"
| "tier_loop fmt up customer (t # rest) =
     (let minTotal = num_else (minTotalSpent t) (Fin 0);
          maxTotal = num_else (maxTotalSpent t) PInf;
          minDays = num_else (minDaysSinceLastOrder t) (Fin 0);
          maxDays = num_else (maxDaysSinceLastOrder t) PInf;
          matchesTotal =
            (js_ge (totalSpent customer) minTotal \<and> js_le (totalSpent customer) maxTotal);
          matchesDays =
            (js_ge (daysSinceLastOrder customer) minDays \<and>
             js_le (daysSinceLastOrder customer) maxDays)
      in if matchesTotal \<and> matchesDays then
           (let percent = num_or (tier_discountPercent t) (Fin 0);
                prefix = str_or (discountCodePrefix t) ''WINBACK'';
                code = str_or (tier_discountCode t)
                         (toUpperCase up (prefix @ number_to_string fmt percent))
            in Some \<lparr>customerId = customer_id customer,
                     rec_email = email customer,
                     discountPercent = percent,
                     discountCode = code,
                     rationale = str_or (tier_rationale t)
                       (''Rule match: spent between '' @ number_to_string fmt minTotal @ en_dash @
                        number_to_string fmt maxTotal @ '', inactive '' @
                        number_to_string fmt minDays @ en_dash @ number_to_string fmt maxDays @
                        '' days.''),
                     messagingAngle = str_or (tier_messagingAngle t)
                       ''Personalized win-back offer based on your purchase history.'',
                     expectedValue = tier_expectedValue t\<rparr>)
         else tier_loop fmt up customer rest)"

text \<open>
  \<^verbatim>\<open>applyRuleConfigToCustomer(customer, ruleConfig)\<close>; \<open>None\<close> for the rule configuration
  is a falsy \<^verbatim>\<open>ruleConfig\<close>, \<open>None\<close> as result is \<^verbatim>\<open>null\<close>.
\<close>

definition applyRuleConfigToCustomer ::
  "(rat \<Rightarrow> string) \<Rightarrow> (string \<Rightarrow> string) \<Rightarrow> customer_metrics \<Rightarrow> rule_config option \<Rightarrow> recommendation option" where
  "applyRuleConfigToCustomer fmt up customer ruleConfig =
     (let ts = (case ruleConfig of
                  Some cfg \<Rightarrow> (case tiers cfg of Some l \<Rightarrow> l | None \<Rightarrow> [])
                | None \<Rightarrow> []);
          defaultTier = (case ruleConfig of Some cfg \<Rightarrow> default_tier cfg | None \<Rightarrow> None)
      in case tier_loop fmt up customer ts of
           Some r \<Rightarrow> Some r
         | None \<Rightarrow>
             (case defaultTier of
                Some d \<Rightarrow>
                  (let percent = num_or (tier_discountPercent d) (Fin 0);
                       prefix = str_or (discountCodePrefix d) ''WINBACK'';
                       code = str_or (tier_discountCode d)
                                (toUpperCase up (prefix @ number_to_string fmt percent))
                   in Some \<lparr>customerId = customer_id customer,
                            rec_email = email customer,
                            discountPercent = percent,
                            discountCode = code,
                            rationale = str_or (tier_rationale d) ''Default rule applied.'',
                            messagingAngle = str_or (tier_messagingAngle d)
                              ''We appreciate you and wanted to send you a special offer.'',
                            expectedValue = tier_expectedValue d\<rparr>)
              | None \<Rightarrow> None))"

section \<open>Metrics reducer\<close>

subsection \<open>\<^verbatim>\<open>parseFloat\<close>\<close>

text \<open>
  \<^verbatim>\<open>parseFloat\<close> skips leading white space and reads the longest prefix that is a
  \<^verbatim>\<open>StrDecimalLiteral\<close>: an optional sign, then \<^verbatim>\<open>Infinity\<close>, or digits with an optional
  fraction and exponent, or a fraction that starts with the point.  With no such prefix the
  result is \<open>NaN\<close>.  White space is the ASCII part of the language's white space.
\<close>

definition is_digit :: "char \<Rightarrow> bool" where
  "is_digit c = (let n = (of_char c :: nat) in 48 \<le> n \<and> n \<le> 57)"

definition digit_val :: "char \<Rightarrow> int" where
  "digit_val c = of_char c - 48"

definition digits_value :: "string \<Rightarrow> int" where
  "digits_value ds = foldl (\<lambda>a c. 10 * a + digit_val c) 0 ds"

definition is_white_space :: "char \<Rightarrow> bool" where
  "is_white_space c = ((of_char c :: nat) \<in> {9, 10, 11, 12, 13, 32})"

definition pow10 :: "int \<Rightarrow> rat" where
  "pow10 e = (if 0 \<le> e then 10 ^ nat e else 1 / 10 ^ nat (- e))"

definition exponent_digits :: "string \<Rightarrow> int \<Rightarrow> int" where
  "exponent_digits r sg =
     (let ds = takeWhile is_digit r in if ds = [] then 0 else sg * digits_value ds)"

text \<open>The exponent of an \<^verbatim>\<open>ExponentPart\<close> at the head of the string, 0 when there is none.\<close>

definition exponent_part :: "string \<Rightarrow> int" where
  "exponent_part s =
     (case s of
        [] \<Rightarrow> 0
      | c # r \<Rightarrow>
          (if c = CHR ''e'' \<or> c = CHR ''E'' then
             (case r of
                [] \<Rightarrow> 0
              | sg # r1 \<Rightarrow>
                  (if sg = CHR ''+'' then exponent_digits r1 1
                   else if sg = CHR ''-'' then exponent_digits r1 (- 1)
                   else exponent_digits r 1))
           else 0))"

definition str_unsigned_decimal :: "string \<Rightarrow> jsnum" where
  "str_unsigned_decimal u =
     (if take 8 u = ''Infinity'' then PInf
      else
        (let ds = takeWhile is_digit u;
             r1 = dropWhile is_digit u;
             has_dot = (case r1 of [] \<Rightarrow> False | c # _ \<Rightarrow> c = CHR ''.'');
             fs = (if has_dot then takeWhile is_digit (tl r1) else []);
             r2 = (if has_dot then dropWhile is_digit (tl r1) else r1)
         in if ds = [] \<and> fs = [] then NaN
            else Fin ((of_int (digits_value ds) + of_int (digits_value fs) / 10 ^ length fs) *
                      pow10 (exponent_part r2))))"

fun js_neg :: "jsnum \<Rightarrow> jsnum" where
  "js_neg NaN = NaN"
| "js_neg PInf = NInf"
| "js_neg NInf = PInf"
| "js_neg (Fin a) = Fin (- a)"

definition parseFloat :: "string \<Rightarrow> jsnum" where
  "parseFloat s =
     (case dropWhile is_white_space s of
        [] \<Rightarrow> NaN
      | c # r \<Rightarrow>
          (if c = CHR ''-'' then js_neg (str_unsigned_decimal r)
           else if c = CHR ''+'' then str_unsigned_decimal r
           else str_unsigned_decimal (c # r)))"

subsection \<open>From a raw customer to its metrics\<close>

text \<open>
  A raw customer as Shopify sends it: the order count is a number, the lifetime spend a
  decimal string, the timestamps are strings.
\<close>

record raw_customer =
  raw_id :: int
  raw_email :: "string option"
  first_name :: "string option"
  last_name :: "string option"
  orders_count :: "jsnum option"
  total_spent :: "string option"
  updated_at :: "string option"
  created_at :: "string option"
  raw_tags :: "string option"
  raw_state :: "string option"

text \<open>\<^verbatim>\<open>a || b\<close> where both sides are optional strings.\<close>

definition or_opt :: "string option \<Rightarrow> string option \<Rightarrow> string option" where
  "or_opt a b = (if truthy_str a then a else b)"

text \<open>
  The function mapped over the raw customers, the same text in \<^verbatim>\<open>GET /api/shopify/customers\<close>
  and in \<^verbatim>\<open>POST /api/reactivation/batch\<close>.  \<open>now\<close> is \<^verbatim>\<open>Date.now()\<close> in milliseconds;
  \<open>dateTime s\<close> is \<^verbatim>\<open>new Date(s).getTime()\<close>, the time value of the parsed date in
  milliseconds, \<open>NaN\<close> for a string that is no date.
\<close>

definition customerWithMetrics ::
  "(string \<Rightarrow> jsnum) \<Rightarrow> int \<Rightarrow> raw_customer \<Rightarrow> customer_metrics" where
  "customerWithMetrics dateTime now customer =
     (let orders = num_or (orders_count customer) (Fin 0);
          spent = parseFloat (str_or (total_spent customer) ''0.00'');
          lastOrderDateRaw = or_opt (updated_at customer) (created_at customer);
          lastDate = (case lastOrderDateRaw of
                        Some s \<Rightarrow> if s \<noteq> [] then Some (dateTime s) else None
                      | None \<Rightarrow> None);
          days = (case lastDate of
                    Some t \<Rightarrow>
                      js_floor (js_div (js_sub (Fin (of_int now)) t)
                                  (Fin (1000 * 60 * 60 * 24)))
                  | None \<Rightarrow> Fin 999)
      in \<lparr>customer_id = raw_id customer,
          email = raw_email customer,
          firstName = str_or (first_name customer) ''Customer'',
          lastName = str_or (last_name customer) [],
          totalOrders = orders,
          totalSpent = spent,
          averageOrderValue = (if js_gt orders (Fin 0) then js_div spent orders else Fin 0),
          daysSinceLastOrder = days,
          lastOrderDate = lastDate,
          tags = str_or (raw_tags customer) [],
          state = str_or (raw_state customer) ''active''\<rparr>)"

section \<open>Paginated fetch of the Shopify customers\<close>

subsection \<open>The \<^verbatim>\<open>Link\<close> header\<close>

text \<open>\<^verbatim>\<open>s.split(sep)\<close> for a separator of one character.\<close>

fun split_on :: "char \<Rightarrow> string \<Rightarrow> string list" where
  "split_on sep [] = [[]]"
| "split_on sep (c # cs) =
     (if c = sep then [] # split_on sep cs
      else (case split_on sep cs of [] \<Rightarrow> [[c]] | p # ps \<Rightarrow> (c # p) # ps))"

text \<open>\<^verbatim>\<open>s.includes(sub)\<close>.\<close>

fun str_includes :: "string \<Rightarrow> string \<Rightarrow> bool" where
  "str_includes sub [] = (sub = [])"
| "str_includes sub (c # cs) = (take (length sub) (c # cs) = sub \<or> str_includes sub cs)"

definition rel_next :: string where
  "rel_next = ''rel='' @ [char_of (34::nat)] @ ''next'' @ [char_of (34::nat)]"

text \<open>
  \<^verbatim>\<open>s.match(/page_info=([^&>]+)/)\<close>: the capture group of the leftmost match, \<open>None\<close> when
  the expression does not match.
\<close>

fun match_page_info :: "string \<Rightarrow> string option" where
  "match_page_info [] = None"
| "match_page_info (c # cs) =
     (let captured = takeWhile (\<lambda>x. x \<noteq> CHR ''&'' \<and> x \<noteq> CHR ''>'') (drop 10 (c # cs))
      in if take 10 (c # cs) = ''page_info='' \<and> captured \<noteq> [] then Some captured
         else match_page_info cs)"

text \<open>
  The statements after \<^verbatim>\<open>allCustomers.push\<close>: from the current \<^verbatim>\<open>pageInfo\<close> and the
  \<^verbatim>\<open>link\<close> header to the new \<^verbatim>\<open>pageInfo\<close> and \<^verbatim>\<open>done\<close>.
\<close>

definition parse_link :: "string option \<Rightarrow> string option \<Rightarrow> string option \<times> bool" where
  "parse_link pageInfo linkHeader =
     (if \<not> truthy_str linkHeader then (pageInfo, True)
      else
        (let links = split_on CHR '','' (case linkHeader of Some h \<Rightarrow> h | None \<Rightarrow> []);
             nextLink = find (str_includes rel_next) links
         in if \<not> truthy_str nextLink then (pageInfo, True)
            else
              (let pageInfo' = match_page_info (case nextLink of Some l \<Rightarrow> l | None \<Rightarrow> [])
               in (pageInfo', \<not> truthy_str pageInfo'))))"

subsection \<open>The upstream and the loop\<close>

text \<open>A thrown \<^verbatim>\<open>Error\<close> with its message.\<close>

datatype js_error = Error string

fun message :: "js_error \<Rightarrow> string" where
  "message (Error m) = m"

text \<open>
  The query of one page request: \<^verbatim>\<open>limit\<close> and, when a cursor is held, \<^verbatim>\<open>page_info\<close>.
\<close>

record customers_request =
  limit :: jsnum
  page_info :: "string option"

text \<open>
  What the code reads of a response: \<^verbatim>\<open>response.ok\<close>, \<^verbatim>\<open>response.status\<close>, the body as
  \<^verbatim>\<open>text()\<close>, the result of \<^verbatim>\<open>json()\<close> (\<open>Inl m\<close> when the body is no JSON and \<^verbatim>\<open>json()\<close>
  rejects with message \<open>m\<close>; otherwise the \<^verbatim>\<open>customers\<close> array of the parsed body, \<open>None\<close>
  when it has none), and the \<^verbatim>\<open>link\<close> header.
\<close>

record 'c response =
  ok :: bool
  status :: int
  body_text :: string
  json :: "string + 'c list option"
  link :: "string option"

text \<open>\<^verbatim>\<open>await fetch(url, ...)\<close> rejects with a message or resolves to a response.\<close>

datatype 'c fetch_result = Rejected string | Responded "'c response"

text \<open>
  The variables of the loop, and the log the function prints at every page: the current
  count and the request.
\<close>

record 'c loop_state =
  allCustomers :: "'c list"
  pageInfo :: "string option"
  is_done :: bool
  requests :: "(nat \<times> customers_request) list"

text \<open>
  \<^verbatim>\<open>xs.slice(0, e)\<close>: a negative end counts from the end of the array, a fractional end
  is truncated towards zero, \<open>NaN\<close> is 0.
\<close>

definition trunc :: "rat \<Rightarrow> int" where
  "trunc q = (if 0 \<le> q then \<lfloor>q\<rfloor> else \<lceil>q\<rceil>)"

fun slice0 :: "'a list \<Rightarrow> jsnum \<Rightarrow> 'a list" where
  "slice0 xs NaN = []"
| "slice0 xs NInf = []"
| "slice0 xs PInf = xs"
| "slice0 xs (Fin e) =
     (if trunc e < 0 then take (nat (int (length xs) + trunc e)) xs else take (nat (trunc e)) xs)"

text \<open>
  The cursor in the URL: \<^verbatim>\<open>page_info\<close> is added when \<^verbatim>\<open>pageInfo\<close> is truthy.
\<close>

definition url_cursor :: "string option \<Rightarrow> string option" where
  "url_cursor p = (if truthy_str p then p else None)"

text \<open>
  The upstream is a state machine \<open>get\<close>: from its state and a request to the result of
  \<^verbatim>\<open>fetch\<close> and its next state.  The loop need not end (an upstream may answer every
  request with an empty page and a cursor), so it is a partial function: \<open>None\<close> is a run
  that does not return.  A run that returns gives the thrown error or the returned array,
  the log, and the state of the upstream.
\<close>

partial_function (option) pagination_loop ::
  "('w \<Rightarrow> customers_request \<Rightarrow> 'c fetch_result \<times> 'w) \<Rightarrow> jsnum \<Rightarrow> 'w \<Rightarrow> 'c loop_state \<Rightarrow>
   ((js_error + 'c list) \<times> (nat \<times> customers_request) list \<times> 'w) option" where
  [code]: "pagination_loop get limitTotal w st =
     (if \<not> is_done st \<and> js_lt (Fin (of_nat (length (allCustomers st)))) limitTotal then
        (let perPage = js_min (Fin 250)
                         (js_sub limitTotal (Fin (of_nat (length (allCustomers st)))));
             request = \<lparr>limit = perPage, page_info = url_cursor (pageInfo st)\<rparr>;
             log = requests st @ [(length (allCustomers st), request)]
         in case get w request of
              (Rejected m, w') \<Rightarrow> Some (Inl (Error m), log, w')
            | (Responded response, w') \<Rightarrow>
                (if \<not> ok response then
                   Some (Inl (Error (''Shopify API error: '' @ int_to_string (status response) @
                                     '' - '' @ body_text response)), log, w')
                 else
                   (case json response of
                      Inl m \<Rightarrow> Some (Inl (Error m), log, w')
                    | Inr data \<Rightarrow>
                        (let customers = (case data of Some cs \<Rightarrow> cs | None \<Rightarrow> []);
                             next = parse_link (pageInfo st) (link response)
                         in pagination_loop get limitTotal w'
                              \<lparr>allCustomers = allCustomers st @ customers,
                               pageInfo = fst next,
                               is_done = snd next,
                               requests = log\<rparr>))))
      else Some (Inr (slice0 (allCustomers st) limitTotal), requests st, w))"

definition fetchShopifyCustomersPaginated ::
  "('w \<Rightarrow> customers_request \<Rightarrow> 'c fetch_result \<times> 'w) \<Rightarrow> jsnum \<Rightarrow> 'w \<Rightarrow>
   ((js_error + 'c list) \<times> (nat \<times> customers_request) list \<times> 'w) option" where
  "fetchShopifyCustomersPaginated get limitTotal w =
     pagination_loop get limitTotal w
       \<lparr>allCustomers = [], pageInfo = None, is_done = False, requests = []\<rparr>"

section \<open>The endpoints\<close>

text \<open>
  The environment variables the two endpoints read.  \<open>MAX_BATCH_CUSTOMERS\<close> is
  \<^verbatim>\<open>Number(process.env.MAX_BATCH_CUSTOMERS)\<close> when the variable is set and not empty.
\<close>

record env =
  SHOPIFY_STORE :: "string option"
  SHOPIFY_API_KEY :: "string option"
  MAILERLITE_API_KEY :: "string option"
  MAX_BATCH_CUSTOMERS :: "jsnum option"

text \<open>
  A parsed JSON body as the endpoints read it: its \<^verbatim>\<open>JSON.stringify\<close> text, the \<^verbatim>\<open>id\<close> of its
  \<^verbatim>\<open>price_rule\<close> (\<open>None\<close> when the body has no \<^verbatim>\<open>price_rule\<close>), and \<^verbatim>\<open>data?.id\<close>.
\<close>

record json_body =
  stringified :: string
  price_rule :: "int option"
  data_id :: "string option"

record json_response =
  r_ok :: bool
  r_json :: "string + json_body"

datatype fetched = FetchRejected string | FetchResolved json_response

text \<open>A reply of the server: the HTTP status and the JSON body.\<close>

datatype 'a reply = Reply int 'a

subsection \<open>\<^verbatim>\<open>POST /api/shopify/discounts\<close>\<close>

record discount_rec =
  rec_discountCode :: "string option"
  rec_discountPercent :: "jsnum option"

text \<open>
  \<^verbatim>\<open>uniqueCodes\<close> is an object created by \<^verbatim>\<open>{}\<close>: its own properties in creation order
  are an association list.  A read of a name that is no own property finds the property
  that \<^verbatim>\<open>Object.prototype\<close> has under that name, an object or a function, when there is one.
\<close>

definition object_prototype_keys :: "string list" where
  "object_prototype_keys =
     [''constructor'', ''__defineGetter__'', ''__defineSetter__'', ''hasOwnProperty'',
      ''__lookupGetter__'', ''__lookupSetter__'', ''isPrototypeOf'', ''propertyIsEnumerable'',
      ''toString'', ''valueOf'', ''__proto__'', ''toLocaleString'']"

text \<open>\<^verbatim>\<open>!obj[key]\<close>.\<close>

definition lookup_falsy :: "(string \<times> jsnum) list \<Rightarrow> string \<Rightarrow> bool" where
  "lookup_falsy obj k =
     (case map_of obj k of
        Some v \<Rightarrow> \<not> truthy_num v
      | None \<Rightarrow> k \<notin> set object_prototype_keys)"

text \<open>
  \<^verbatim>\<open>obj[key] = v\<close> for a number \<open>v\<close>: an own property keeps its place, a new one is
  created last; the setter of \<^verbatim>\<open>__proto__\<close> ignores a number.
\<close>

definition assign :: "(string \<times> jsnum) list \<Rightarrow> string \<Rightarrow> jsnum \<Rightarrow> (string \<times> jsnum) list" where
  "assign obj k v =
     (if k \<in> set (map fst obj) then map (\<lambda>p. if fst p = k then (k, v) else p) obj
      else if k = ''__proto__'' then obj
      else obj @ [(k, v)])"

text \<open>The body of \<^verbatim>\<open>recommendations.forEach\<close>.\<close>

definition collect_code :: "(string \<times> jsnum) list \<Rightarrow> discount_rec \<Rightarrow> (string \<times> jsnum) list" where
  "collect_code uniqueCodes r =
     (case rec_discountCode r of
        None \<Rightarrow> uniqueCodes
      | Some code \<Rightarrow>
          (case rec_discountPercent r of
             None \<Rightarrow> uniqueCodes
           | Some percent \<Rightarrow>
               (if code \<noteq> [] then
                  (if lookup_falsy uniqueCodes code then assign uniqueCodes code percent
                   else uniqueCodes)
                else uniqueCodes)))"

definition unique_codes :: "discount_rec list \<Rightarrow> (string \<times> jsnum) list" where
  "unique_codes recs = foldl collect_code [] recs"

text \<open>
  \<^verbatim>\<open>Object.entries\<close>: the keys that are array indices (canonical decimal numerals below
  \<open>2^32 - 1\<close>) in ascending numeric order, then the other keys in creation order.
\<close>

definition is_array_index :: "string \<Rightarrow> bool" where
  "is_array_index k =
     (k \<noteq> [] \<and> list_all is_digit k \<and> (k = ''0'' \<or> hd k \<noteq> CHR ''0'') \<and>
      digits_value k < 4294967295)"

definition object_entries :: "(string \<times> jsnum) list \<Rightarrow> (string \<times> jsnum) list" where
  "object_entries obj =
     sort_key (\<lambda>p. digits_value (fst p)) (filter (\<lambda>p. is_array_index (fst p)) obj) @
     filter (\<lambda>p. \<not> is_array_index (fst p)) obj"

text \<open>
  The two requests of one creation.  Of the price rule only the title and the value depend
  on the code; its other fields are constants and the clock, which nothing below reads.
\<close>

record price_rule_request =
  title :: string
  pr_value :: string

record discount_code_request =
  price_rule_id :: int
  dc_code :: string

record 'w shopify_admin =
  post_price_rule :: "'w \<Rightarrow> price_rule_request \<Rightarrow> fetched \<times> 'w"
  post_discount_code :: "'w \<Rightarrow> discount_code_request \<Rightarrow> fetched \<times> 'w"

definition type_error_id :: string where
  "type_error_id = ''Cannot read properties of undefined (reading '' @ [char_of (39::nat)] @
     ''id'' @ [char_of (39::nat)] @ '')''"

text \<open>
  The \<^verbatim>\<open>try\<close> block of the loop over the entries: \<open>Inl e\<close> when it throws \<open>e\<close>, which the
  \<^verbatim>\<open>catch\<close> of the same iteration receives.  The pause of 500 ms is not modelled.
\<close>

definition create_one ::
  "(rat \<Rightarrow> string) \<Rightarrow> 'w shopify_admin \<Rightarrow> 'w \<Rightarrow> string \<Rightarrow> jsnum \<Rightarrow> (js_error + unit) \<times> 'w" where
  "create_one fmt api w code percentage =
     (case post_price_rule api w
             \<lparr>title = code @ '' - AI Dynamic Pricing'',
              pr_value = ''-'' @ number_to_string fmt percentage\<rparr> of
        (FetchRejected m, w1) \<Rightarrow> (Inl (Error m), w1)
      | (FetchResolved priceRuleResponse, w1) \<Rightarrow>
          (if \<not> r_ok priceRuleResponse then
             (case r_json priceRuleResponse of
                Inl m \<Rightarrow> (Inl (Error m), w1)
              | Inr errorData \<Rightarrow>
                  (Inl (Error (''Price rule creation failed: '' @ stringified errorData)), w1))
           else
             (case r_json priceRuleResponse of
                Inl m \<Rightarrow> (Inl (Error m), w1)
              | Inr priceRuleData \<Rightarrow>
                  (case price_rule priceRuleData of
                     None \<Rightarrow> (Inl (Error type_error_id), w1)
                   | Some priceRuleId \<Rightarrow>
                       (case post_discount_code api w1
                               \<lparr>price_rule_id = priceRuleId, dc_code = code\<rparr> of
                          (FetchRejected m, w2) \<Rightarrow> (Inl (Error m), w2)
                        | (FetchResolved discountCodeResponse, w2) \<Rightarrow>
                            (if \<not> r_ok discountCodeResponse then
                               (case r_json discountCodeResponse of
                                  Inl m \<Rightarrow> (Inl (Error m), w2)
                                | Inr errorData \<Rightarrow>
                                    (Inl (Error (''Discount code creation failed: '' @
                                                 stringified errorData)), w2))
                             else (Inr (), w2)))))))"

text \<open>
  The loop \<^verbatim>\<open>for (const [code, percentage] of Object.entries(uniqueCodes))\<close> with the two
  arrays it fills and the codes it attempted.
\<close>

record created_code =
  cc_code :: string
  cc_percentage :: jsnum

record failed_code =
  fc_code :: string
  fc_error :: string

record 'w creation_state =
  createdCodes :: "created_code list"
  failedCodes :: "failed_code list"
  attempted :: "string list"
  world :: 'w

fun create_loop ::
  "(rat \<Rightarrow> string) \<Rightarrow> 'w shopify_admin \<Rightarrow> (string \<times> jsnum) list \<Rightarrow> 'w creation_state \<Rightarrow>
   'w creation_state" where
  "create_loop fmt api [] st = st"
| "create_loop fmt api ((code, percentage) # rest) st =
     (case create_one fmt api (world st) code percentage of
        (Inr u, w') \<Rightarrow>
          create_loop fmt api rest
            (st\<lparr>createdCodes := createdCodes st @ [\<lparr>cc_code = code, cc_percentage = percentage\<rparr>],
                attempted := attempted st @ [code],
                world := w'\<rparr>)
      | (Inl e, w') \<Rightarrow>
          create_loop fmt api rest
            (st\<lparr>failedCodes := failedCodes st @ [\<lparr>fc_code = code, fc_error = message e\<rparr>],
                attempted := attempted st @ [code],
                world := w'\<rparr>))"

datatype discounts_body =
  DiscountsError string
| DiscountsResult "created_code list" "failed_code list"

text \<open>
  The handler.  \<open>recommendations\<close> is \<open>Some recs\<close> exactly when the body holds an array
  under that name.  Its outer \<^verbatim>\<open>catch\<close>, which answers 500, is reached by no input of
  these types: every statement that can throw is inside the \<^verbatim>\<open>try\<close> of the loop.
\<close>

definition post_shopify_discounts ::
  "(rat \<Rightarrow> string) \<Rightarrow> env \<Rightarrow> 'w shopify_admin \<Rightarrow> 'w \<Rightarrow> discount_rec list option \<Rightarrow>
   discounts_body reply \<times> 'w creation_state" where
  "post_shopify_discounts fmt e api w recommendations =
     (let start = \<lparr>createdCodes = [], failedCodes = [], attempted = [], world = w\<rparr>
      in if \<not> truthy_str (SHOPIFY_API_KEY e) \<or> \<not> truthy_str (SHOPIFY_STORE e) then
           (Reply 400 (DiscountsError ''Shopify credentials not configured''), start)
         else
           (case recommendations of
              None \<Rightarrow>
                (Reply 400 (DiscountsError ''No recommendations provided to create discounts.''),
                 start)
            | Some recs \<Rightarrow>
                (if length recs = 0 then
                   (Reply 400
                      (DiscountsError ''No recommendations provided to create discounts.''),
                    start)
                 else
                   (let uniqueCodes = unique_codes recs;
                        fin = create_loop fmt api (object_entries uniqueCodes) start
                    in (Reply 200 (DiscountsResult (createdCodes fin) (failedCodes fin)), fin)))))"

subsection \<open>\<^verbatim>\<open>POST /api/reactivation/batch\<close>\<close>

text \<open>
  The fields the handler takes from the request body.  \<open>pricingStrategy\<close> is \<open>None\<close> when
  the body has no such field (the default of the destructuring applies);
  \<open>sendToMailerLite\<close> is the truthiness of the field.
\<close>

record batch_body =
  pricingStrategy :: "string option"
  ruleConfig :: "rule_config option"
  campaignName :: "string option"
  maxCustomers :: "jsnum option"
  sendToMailerLite :: bool

record subscriber_request =
  sub_email :: "string option"
  groups :: "string list"
  discount_code :: string
  discount_percent :: string
  messaging_angle :: string
  expected_value :: string

text \<open>
  The services the handler calls, over one state: the customers endpoint of Shopify, and
  the groups and subscribers endpoints of MailerLite.  \<open>post_subscriber\<close> gives \<open>True\<close>
  when the promise of \<^verbatim>\<open>fetch\<close> resolves; the handler does not read the response.
\<close>

record 'w services =
  get_customers :: "'w \<Rightarrow> customers_request \<Rightarrow> raw_customer fetch_result \<times> 'w"
  post_group :: "'w \<Rightarrow> string \<Rightarrow> fetched \<times> 'w"
  post_subscriber :: "'w \<Rightarrow> subscriber_request \<Rightarrow> bool \<times> 'w"

text \<open>
  What the handler takes from the engine: the printing of numbers, the upper-casing of
  strings outside ASCII, the parsing of dates,
  \<^verbatim>\<open>Date.now()\<close> as read for the \<open>i\<close>-th customer, and \<^verbatim>\<open>new Date().toLocaleDateString()\<close>.
\<close>

record runtime =
  number_format :: "rat \<Rightarrow> string"
  upper_case :: "string \<Rightarrow> string"
  date_time :: "string \<Rightarrow> jsnum"
  clock :: "nat \<Rightarrow> int"
  locale_date :: string

record mailer_lite_result =
  groupId :: string
  addedCount :: nat

record batch_result =
  success :: bool
  res_pricingStrategy :: string
  totalCustomersFetched :: nat
  totalRecommendations :: nat
  sampleRecommendations :: "recommendation list"
  mailerLiteResult :: "mailer_lite_result option"

datatype batch_reply = BatchError string | BatchResult batch_result

text \<open>The loop \<^verbatim>\<open>for (const c of customersWithMetrics)\<close> that fills \<^verbatim>\<open>recommendations\<close>.\<close>

fun recommendations_loop ::
  "(rat \<Rightarrow> string) \<Rightarrow> (string \<Rightarrow> string) \<Rightarrow> rule_config option \<Rightarrow> customer_metrics list \<Rightarrow> recommendation list" where
  "recommendations_loop fmt up cfg [] = []"
| "recommendations_loop fmt up cfg (c # cs) =
     (case applyRuleConfigToCustomer fmt up c cfg of
        None \<Rightarrow> recommendations_loop fmt up cfg cs
      | Some r \<Rightarrow>
          (if js_gt (discountPercent r) (Fin 0) \<and> truthy_str (rec_email r)
           then r # recommendations_loop fmt up cfg cs
           else recommendations_loop fmt up cfg cs))"

text \<open>
  The loop \<^verbatim>\<open>for (const rec of recommendations)\<close> that posts the subscribers: the count of
  the posts that resolved, the requests sent, and the state of the services.
\<close>

fun subscribers_loop ::
  "(rat \<Rightarrow> string) \<Rightarrow> 'w services \<Rightarrow> string \<Rightarrow> recommendation list \<Rightarrow>
   nat \<times> subscriber_request list \<times> 'w \<Rightarrow> nat \<times> subscriber_request list \<times> 'w" where
  "subscribers_loop fmt sv gid [] acc = acc"
| "subscribers_loop fmt sv gid (r # rs) (added, sent, w) =
     (let request =
            \<lparr>sub_email = rec_email r,
             groups = [gid],
             discount_code = discountCode r,
             discount_percent = number_to_string fmt (discountPercent r),
             messaging_angle = messagingAngle r,
             expected_value =
               (case expectedValue r of None \<Rightarrow> [] | Some v \<Rightarrow> number_to_string fmt v)\<rparr>
      in case post_subscriber sv w request of
           (True, w') \<Rightarrow> subscribers_loop fmt sv gid rs (added + 1, sent @ [request], w')
         | (False, w') \<Rightarrow> subscribers_loop fmt sv gid rs (added, sent @ [request], w'))"

text \<open>
  The block \<^verbatim>\<open>if (sendToMailerLite) { ... }\<close>: \<open>Inl (status, text)\<close> when the handler
  answers from inside the block (the early return with 400, or a thrown error that the
  \<^verbatim>\<open>catch\<close> of the handler answers with 500), \<open>Inr\<close> the value of \<^verbatim>\<open>mailerLiteResult\<close>
  otherwise; with the subscriber requests sent and the state of the services.
\<close>

definition mailer_lite_block ::
  "runtime \<Rightarrow> env \<Rightarrow> 'w services \<Rightarrow> 'w \<Rightarrow> batch_body \<Rightarrow> string \<Rightarrow> recommendation list \<Rightarrow>
   ((int \<times> string) + mailer_lite_result) \<times> subscriber_request list \<times> 'w" where
  "mailer_lite_block rt e sv w body strategy recs =
     (if \<not> truthy_str (MAILERLITE_API_KEY e) then
        (Inl (400, ''MAILERLITE_API_KEY not configured, cannot send directly to MailerLite.''),
         [], w)
      else
        (case post_group sv w
                (str_or (campaignName body)
                   (''Dynamic Pricing Batch - '' @ strategy @ '' - '' @ locale_date rt)) of
           (FetchRejected m, w2) \<Rightarrow> (Inl (500, str_or (Some m) ''Unknown error''), [], w2)
         | (FetchResolved groupResponse, w2) \<Rightarrow>
             (case r_json groupResponse of
                Inl m \<Rightarrow> (Inl (500, str_or (Some m) ''Unknown error''), [], w2)
              | Inr groupData \<Rightarrow>
                  (if \<not> truthy_str (data_id groupData) then
                     (Inl (500, ''Failed to create MailerLite group in batch endpoint: '' @
                                stringified groupData), [], w2)
                   else
                     (let gid = (case data_id groupData of Some g \<Rightarrow> g | None \<Rightarrow> [])
                      in case subscribers_loop (number_format rt) sv gid recs (0, [], w2) of
                           (added, sent, w3) \<Rightarrow>
                             (Inr \<lparr>groupId = gid, addedCount = added\<rparr>, sent, w3))))))"

text \<open>
  The handler: the reply, the subscriber requests sent, and the state of the services;
  \<open>None\<close> when the paginated fetch does not return.
\<close>

definition post_reactivation_batch ::
  "runtime \<Rightarrow> env \<Rightarrow> 'w services \<Rightarrow> 'w \<Rightarrow> batch_body \<Rightarrow>
   (batch_reply reply \<times> subscriber_request list \<times> 'w) option" where
  "post_reactivation_batch rt e sv w body =
     (if ruleConfig body = None then
        Some (Reply 400 (BatchError ''ruleConfig is required to run batch reactivation.''), [], w)
      else if \<not> truthy_str (SHOPIFY_API_KEY e) \<or> \<not> truthy_str (SHOPIFY_STORE e) then
        Some (Reply 400 (BatchError ''Shopify credentials not configured''), [], w)
      else
        (let strategy = (case pricingStrategy body of None \<Rightarrow> ''reactivation'' | Some s \<Rightarrow> s);
             batchLimit = js_min (num_or (maxCustomers body) (Fin 7000))
                            (num_else (MAX_BATCH_CUSTOMERS e) (Fin 10000))
         in case fetchShopifyCustomersPaginated (get_customers sv) batchLimit w of
              None \<Rightarrow> None
            | Some (Inl err, _, w1) \<Rightarrow>
                Some (Reply 500 (BatchError (str_or (Some (message err)) ''Unknown error'')),
                      [], w1)
            | Some (Inr rawCustomers, _, w1) \<Rightarrow>
                (let customersWithMetrics =
                       map (\<lambda>(i, c). customerWithMetrics (date_time rt) (clock rt i) c)
                         (enumerate 0 rawCustomers);
                     recs = recommendations_loop (number_format rt) (upper_case rt) (ruleConfig body)
                              customersWithMetrics;
                     result = (\<lambda>ml.
                       \<lparr>success = True,
                        res_pricingStrategy = strategy,
                        totalCustomersFetched = length customersWithMetrics,
                        totalRecommendations = length recs,
                        sampleRecommendations = take 20 recs,
                        mailerLiteResult = ml\<rparr>)
                 in if sendToMailerLite body then
                      (case mailer_lite_block rt e sv w1 body strategy recs of
                         (Inl (code, text), sent, w2) \<Rightarrow>
                           Some (Reply code (BatchError text), sent, w2)
                       | (Inr ml, sent, w2) \<Rightarrow>
                           Some (Reply 200 (BatchResult (result (Some ml))), sent, w2))
                    else Some (Reply 200 (BatchResult (result None)), [], w1))))"

section \<open>The specification, in its own words\<close>

text \<open>
  The definitions of this section follow the sentences of the specification; the
  theorems relate them to the functions above.  ``Unset'' is read as JavaScript does in
  \<^verbatim>\<open>x || d\<close>: absent, \<^verbatim>\<open>null\<close>, the empty string, zero or \<open>NaN\<close>.
\<close>

subsection \<open>Tier matching\<close>

text \<open>
  A value lies within inclusive bounds, an unset lower bound being 0 and an unset upper
  bound \<open>+\<infinity>\<close>.
\<close>

definition spec_in_range :: "jsnum \<Rightarrow> jsnum option \<Rightarrow> jsnum option \<Rightarrow> bool" where
  "spec_in_range x lo hi =
     (js_le (case lo of None \<Rightarrow> Fin 0 | Some l \<Rightarrow> l) x \<and>
      js_le x (case hi of None \<Rightarrow> PInf | Some h \<Rightarrow> h))"

definition spec_days_in_bounds :: "customer_metrics \<Rightarrow> tier \<Rightarrow> bool" where
  "spec_days_in_bounds c t =
     spec_in_range (daysSinceLastOrder c) (minDaysSinceLastOrder t) (maxDaysSinceLastOrder t)"

definition spec_tier_matches :: "customer_metrics \<Rightarrow> tier \<Rightarrow> bool" where
  "spec_tier_matches c t =
     (spec_in_range (totalSpent c) (minTotalSpent t) (maxTotalSpent t) \<and> spec_days_in_bounds c t)"

definition spec_code :: "(rat \<Rightarrow> string) \<Rightarrow> (string \<Rightarrow> string) \<Rightarrow> tier \<Rightarrow> string" where
  "spec_code fmt up t =
     (case tier_discountCode t of
        Some (x # xs) \<Rightarrow> x # xs
      | _ \<Rightarrow>
          toUpperCase up
            ((case discountCodePrefix t of Some (p # ps) \<Rightarrow> p # ps | _ \<Rightarrow> ''WINBACK'') @
             number_to_string fmt (num_or (tier_discountPercent t) (Fin 0))))"

definition spec_build ::
  "(rat \<Rightarrow> string) \<Rightarrow> (string \<Rightarrow> string) \<Rightarrow> customer_metrics \<Rightarrow> tier \<Rightarrow> string \<Rightarrow> string \<Rightarrow> recommendation" where
  "spec_build fmt up c t genericRationale genericAngle =
     \<lparr>customerId = customer_id c,
      rec_email = email c,
      discountPercent = num_or (tier_discountPercent t) (Fin 0),
      discountCode = spec_code fmt up t,
      rationale = (case tier_rationale t of Some (x # xs) \<Rightarrow> x # xs | _ \<Rightarrow> genericRationale),
      messagingAngle = (case tier_messagingAngle t of Some (x # xs) \<Rightarrow> x # xs | _ \<Rightarrow> genericAngle),
      expectedValue = tier_expectedValue t\<rparr>"

definition rule_match_text :: "(rat \<Rightarrow> string) \<Rightarrow> tier \<Rightarrow> string" where
  "rule_match_text fmt t =
     ''Rule match: spent between '' @ number_to_string fmt (num_else (minTotalSpent t) (Fin 0)) @
     en_dash @ number_to_string fmt (num_else (maxTotalSpent t) PInf) @ '', inactive '' @
     number_to_string fmt (num_else (minDaysSinceLastOrder t) (Fin 0)) @ en_dash @
     number_to_string fmt (num_else (maxDaysSinceLastOrder t) PInf) @ '' days.''"

definition spec_tier_recommendation :: "(rat \<Rightarrow> string) \<Rightarrow> (string \<Rightarrow> string) \<Rightarrow> customer_metrics \<Rightarrow> tier \<Rightarrow> recommendation" where
  "spec_tier_recommendation fmt up c t =
     spec_build fmt up c t (rule_match_text fmt t)
       ''Personalized win-back offer based on your purchase history.''"

definition spec_default_recommendation :: "(rat \<Rightarrow> string) \<Rightarrow> (string \<Rightarrow> string) \<Rightarrow> customer_metrics \<Rightarrow> tier \<Rightarrow> recommendation" where
  "spec_default_recommendation fmt up c d =
     spec_build fmt up c d ''Default rule applied.''
       ''We appreciate you and wanted to send you a special offer.''"

definition config_tiers :: "rule_config \<Rightarrow> tier list" where
  "config_tiers cfg = (case tiers cfg of Some l \<Rightarrow> l | None \<Rightarrow> [])"

definition spec_selected_tier :: "customer_metrics \<Rightarrow> rule_config \<Rightarrow> tier option" where
  "spec_selected_tier c cfg =
     (case find (spec_tier_matches c) (config_tiers cfg) of
        Some t \<Rightarrow> Some t
      | None \<Rightarrow> default_tier cfg)"

definition empty_tier :: tier where
  "empty_tier =
     \<lparr>minTotalSpent = None, maxTotalSpent = None, minDaysSinceLastOrder = None,
      maxDaysSinceLastOrder = None, tier_discountPercent = None, discountCodePrefix = None,
      tier_discountCode = None, tier_rationale = None, tier_messagingAngle = None,
      tier_expectedValue = None\<rparr>"

definition overlapping_tiers :: "tier list" where
  "overlapping_tiers =
     [empty_tier\<lparr>minTotalSpent := Some (Fin 0), maxTotalSpent := Some (Fin 100),
                 tier_discountPercent := Some (Fin 10)\<rparr>,
      empty_tier\<lparr>minTotalSpent := Some (Fin 50), maxTotalSpent := Some (Fin 150),
                 tier_discountPercent := Some (Fin 20)\<rparr>]"

definition sample_customer :: "jsnum \<Rightarrow> jsnum \<Rightarrow> customer_metrics" where
  "sample_customer spent days =
     \<lparr>customer_id = 1, email = Some ''a@example.com'', firstName = ''Ann'', lastName = ''Lee'',
      totalOrders = Fin 3, totalSpent = spent, averageOrderValue = Fin 25,
      daysSinceLastOrder = days, lastOrderDate = None, tags = [], state = ''active''\<rparr>"

text \<open>Tiers and a customer for the examples.\<close>

definition high_spend_tier :: tier where
  "high_spend_tier =
     empty_tier\<lparr>minTotalSpent := Some (Fin 1000), tier_discountPercent := Some (Fin 30)\<rparr>"

definition strict_default :: tier where
  "strict_default =
     empty_tier\<lparr>minTotalSpent := Some (Fin 500), maxDaysSinceLastOrder := Some (Fin 7),
                 tier_discountPercent := Some (Fin 5), discountCodePrefix := Some ''hello''\<rparr>"

definition save_tier :: tier where
  "save_tier =
     empty_tier\<lparr>tier_discountPercent := Some (Fin 15), discountCodePrefix := Some ''SAVE''\<rparr>"

definition plain_default :: tier where
  "plain_default = empty_tier\<lparr>tier_discountPercent := Some (Fin 20)\<rparr>"

subsection \<open>Metrics reducer\<close>

text \<open>Raw customers and a clock for the examples.\<close>

definition bare_customer :: raw_customer where
  "bare_customer =
     \<lparr>raw_id = 7, raw_email = None, first_name = None, last_name = None, orders_count = None,
      total_spent = None, updated_at = None, created_at = None, raw_tags = None,
      raw_state = None\<rparr>"

definition garbled_spend_customer :: raw_customer where
  "garbled_spend_customer = bare_customer\<lparr>total_spent := Some ''abc''\<rparr>"

definition returning_customer :: raw_customer where
  "returning_customer =
     bare_customer\<lparr>raw_email := Some ''b@example.com'', orders_count := Some (Fin 3),
                    total_spent := Some ''150.00'', updated_at := Some ''2024-01-01T00:00:00Z''\<rparr>"

definition day_ms :: int where
  "day_ms = 86400000"

text \<open>A date parser for the examples: it knows one date and rejects every other string.\<close>

definition sample_date_time :: "string \<Rightarrow> jsnum" where
  "sample_date_time s = (if s = ''2024-01-01T00:00:00Z'' then Fin (of_int (100 * day_ms)) else NaN)"

subsection \<open>Paginated fetch\<close>

text \<open>
  The customers a response carries: those of its parsed body, none when the body has no
  \<^verbatim>\<open>customers\<close>; \<open>None\<close> when the body is no JSON.
\<close>

definition customers_of :: "(string + 'c list option) \<Rightarrow> 'c list option" where
  "customers_of j = (case j of Inr (Some cs) \<Rightarrow> Some cs | Inr None \<Rightarrow> Some [] | Inl m \<Rightarrow> None)"



text \<open>
  The \<^verbatim>\<open>Link\<close> header gives no next cursor: it is absent or empty, or none of its entries is
  marked \<^verbatim>\<open>rel="next"\<close>, or no \<^verbatim>\<open>page_info\<close> can be read from the first entry so marked.
\<close>

definition spec_no_next_cursor :: "string option \<Rightarrow> bool" where
  "spec_no_next_cursor header =
     (case header of
        None \<Rightarrow> True
      | Some h \<Rightarrow>
          h = [] \<or>
          (case find (str_includes rel_next) (split_on CHR '','' h) of
             None \<Rightarrow> True
           | Some entry \<Rightarrow> match_page_info entry = None))"

text \<open>Headers and upstreams for the examples.\<close>

definition next_link :: string where
  "next_link = ''<https://shop.myshopify.com/admin/api/2024-10/customers.json?limit=2&page_info=abc>; '' @
     rel_next"

definition previous_link :: string where
  "previous_link = ''<https://shop.myshopify.com/admin/api/2024-10/customers.json?page_info=xyz>; rel=previous''"

definition broken_next_link :: string where
  "broken_next_link = ''<https://shop.myshopify.com/admin/api/2024-10/customers.json?limit=2>; '' @ rel_next"

definition paged_store :: "'c list \<Rightarrow> customers_request \<Rightarrow> 'c fetch_result \<times> 'c list" where
  "paged_store w rq =
     (case limit rq of
        Fin q \<Rightarrow>
          (Responded \<lparr>ok = True, status = 200, body_text = [],
                      json = Inr (Some (take (nat \<lfloor>q\<rfloor>) w)),
                      link = (if drop (nat \<lfloor>q\<rfloor>) w = [] then None else Some next_link)\<rparr>,
           drop (nat \<lfloor>q\<rfloor>) w)
      | _ \<Rightarrow> (Rejected ''bad limit'', w))"

definition single_page :: "string option \<Rightarrow> unit \<Rightarrow> customers_request \<Rightarrow> string fetch_result \<times> unit" where
  "single_page header w rq =
     (Responded \<lparr>ok = True, status = 200, body_text = [],
                 json = Inr (Some [''ann'', ''bob'', ''cy'']), link = header\<rparr>, w)"


subsection \<open>Batch filter\<close>

text \<open>A recommendation is kept: its discount percent is greater than 0 and it has an email.\<close>

definition spec_keep :: "recommendation \<Rightarrow> bool" where
  "spec_keep r = (js_gt (discountPercent r) (Fin 0) \<and> truthy_str (rec_email r))"

text \<open>
  The limit of the batch, the metrics of the fetched customers, what the matcher produces
  for them, and the subscriber request of a recommendation.
\<close>

definition batch_limit :: "env \<Rightarrow> batch_body \<Rightarrow> jsnum" where
  "batch_limit e body =
     js_min (num_or (maxCustomers body) (Fin 7000)) (num_else (MAX_BATCH_CUSTOMERS e) (Fin 10000))"

definition batch_metrics :: "runtime \<Rightarrow> raw_customer list \<Rightarrow> customer_metrics list" where
  "batch_metrics rt raws =
     map (\<lambda>(i, c). customerWithMetrics (date_time rt) (clock rt i) c) (enumerate 0 raws)"

definition matcher_output :: "runtime \<Rightarrow> batch_body \<Rightarrow> raw_customer list \<Rightarrow> recommendation list" where
  "matcher_output rt body raws =
     List.map_filter (\<lambda>c. applyRuleConfigToCustomer (number_format rt) (upper_case rt) c (ruleConfig body))
       (batch_metrics rt raws)"

definition subscriber_request_of :: "(rat \<Rightarrow> string) \<Rightarrow> string \<Rightarrow> recommendation \<Rightarrow> subscriber_request" where
  "subscriber_request_of fmt gid r =
     \<lparr>sub_email = rec_email r,
      groups = [gid],
      discount_code = discountCode r,
      discount_percent = number_to_string fmt (discountPercent r),
      messaging_angle = messagingAngle r,
      expected_value = (case expectedValue r of None \<Rightarrow> [] | Some v \<Rightarrow> number_to_string fmt v)\<rparr>"

text \<open>
  The customers the batch fetches, and of the recommendations the matcher produces for
  them those that are kept.
\<close>

definition fetched_customers :: "env \<Rightarrow> 'w services \<Rightarrow> 'w \<Rightarrow> batch_body \<Rightarrow> raw_customer list" where
  "fetched_customers e sv w body =
     (case fetchShopifyCustomersPaginated (get_customers sv) (batch_limit e body) w of
        Some (Inr raws, _, _) \<Rightarrow> raws
      | _ \<Rightarrow> [])"

definition spec_kept :: "runtime \<Rightarrow> env \<Rightarrow> 'w services \<Rightarrow> 'w \<Rightarrow> batch_body \<Rightarrow> recommendation list" where
  "spec_kept rt e sv w body =
     filter spec_keep (matcher_output rt body (fetched_customers e sv w body))"

text \<open>
  A batch for the examples: a tier of 0 percent up to a spend of 100 and a tier of
  20 percent from 100 on; a customer with an email who spent 150, one without an email who
  spent 150, and one with an email who spent 50.
\<close>

definition zero_tier :: tier where
  "zero_tier = empty_tier\<lparr>maxTotalSpent := Some (Fin 100), tier_discountPercent := Some (Fin 0)\<rparr>"

definition twenty_tier :: tier where
  "twenty_tier = empty_tier\<lparr>minTotalSpent := Some (Fin 100), tier_discountPercent := Some (Fin 20)\<rparr>"

definition sample_store :: "raw_customer list" where
  "sample_store =
     [bare_customer\<lparr>raw_id := 1, raw_email := Some ''ann@example.com'',
                    total_spent := Some ''150.00''\<rparr>,
      bare_customer\<lparr>raw_id := 2, total_spent := Some ''150.00''\<rparr>,
      bare_customer\<lparr>raw_id := 3, raw_email := Some ''cy@example.com'',
                    total_spent := Some ''50.00''\<rparr>]"

definition sample_services :: "raw_customer list services" where
  "sample_services =
     \<lparr>get_customers = paged_store,
      post_group = (\<lambda>w name.
        (FetchResolved \<lparr>r_ok = True,
                        r_json = Inr \<lparr>stringified = ''{}'', price_rule = None,
                                      data_id = Some ''g1''\<rparr>\<rparr>, w)),
      post_subscriber = (\<lambda>w rq. (True, w))\<rparr>"

definition sample_env :: env where
  "sample_env =
     \<lparr>SHOPIFY_STORE = Some ''shop'', SHOPIFY_API_KEY = Some ''key'',
      MAILERLITE_API_KEY = Some ''mlkey'', MAX_BATCH_CUSTOMERS = None\<rparr>"

definition sample_runtime :: runtime where
  "sample_runtime =
     \<lparr>number_format = (\<lambda>q. []), upper_case = (\<lambda>s. s), date_time = sample_date_time, clock = (\<lambda>i. 0),
      locale_date = ''1/1/2025''\<rparr>"

definition sample_body :: batch_body where
  "sample_body =
     \<lparr>pricingStrategy = None,
      ruleConfig = Some \<lparr>tiers = Some [zero_tier, twenty_tier], default_tier = None\<rparr>,
      campaignName = None, maxCustomers = Some (Fin 10), sendToMailerLite = True\<rparr>"

definition ann_recommendation :: recommendation where
  "ann_recommendation =
     \<lparr>customerId = 1, rec_email = Some ''ann@example.com'', discountPercent = Fin 20,
      discountCode = ''WINBACK20'',
      rationale = ''Rule match: spent between 100'' @ en_dash @ ''Infinity, inactive 0'' @
                  en_dash @ ''Infinity days.'',
      messagingAngle = ''Personalized win-back offer based on your purchase history.'',
      expectedValue = None\<rparr>"

subsection \<open>Discounts endpoint\<close>

text \<open>The status of a reply, the presence of the Shopify credentials, and the codes a
  list of recommendations leads the endpoint to create, in the order of the loop.\<close>

fun reply_status :: "'a reply \<Rightarrow> int" where
  "reply_status (Reply s b) = s"

definition configured :: "env \<Rightarrow> bool" where
  "configured e = (truthy_str (SHOPIFY_API_KEY e) \<and> truthy_str (SHOPIFY_STORE e))"

definition codes_to_create :: "discount_rec list \<Rightarrow> string list" where
  "codes_to_create recs = map fst (object_entries (unique_codes recs))"

text \<open>
  For the examples: an admin API that rejects the price rule of the code \<^verbatim>\<open>BAD\<close> and accepts
  every other one, an environment without the API key, and two lists of recommendations.
\<close>

definition sample_admin :: "int shopify_admin" where
  "sample_admin =
     \<lparr>post_price_rule = (\<lambda>w rq.
        if title rq = ''BAD - AI Dynamic Pricing'' then
          (FetchResolved \<lparr>r_ok = False,
                          r_json = Inr \<lparr>stringified = ''{errors: invalid}'', price_rule = None,
                                        data_id = None\<rparr>\<rparr>, w)
        else
          (FetchResolved \<lparr>r_ok = True,
                          r_json = Inr \<lparr>stringified = ''{price_rule: {}}'', price_rule = Some w,
                                        data_id = None\<rparr>\<rparr>, w + 1)),
      post_discount_code = (\<lambda>w rq. (FetchResolved \<lparr>r_ok = True, r_json = Inl ''unread''\<rparr>, w))\<rparr>"

definition no_key_env :: env where
  "no_key_env = sample_env\<lparr>SHOPIFY_API_KEY := None\<rparr>"

definition sample_recs :: "discount_rec list" where
  "sample_recs =
     [\<lparr>rec_discountCode = Some ''GOOD10'', rec_discountPercent = Some (Fin 10)\<rparr>,
      \<lparr>rec_discountCode = Some ''BAD'', rec_discountPercent = Some (Fin 15)\<rparr>,
      \<lparr>rec_discountCode = Some ''GOOD20'', rec_discountPercent = Some (Fin 20)\<rparr>]"

definition zero_first_recs :: "discount_rec list" where
  "zero_first_recs =
     [\<lparr>rec_discountCode = Some ''SAVE'', rec_discountPercent = Some (Fin 0)\<rparr>,
      \<lparr>rec_discountCode = Some ''SAVE'', rec_discountPercent = Some (Fin 10)\<rparr>]"

subsection \<open>Upper-casing\<close>

text \<open>
  The upper-casing of an ASCII string, as a table of the twenty-six letters: every
  lower-case letter goes to its capital and every other character stays.
\<close>

definition spec_upper_char :: "char \<Rightarrow> char" where
  "spec_upper_char c =
     (case map_of (zip ''abcdefghijklmnopqrstuvwxyz'' ''ABCDEFGHIJKLMNOPQRSTUVWXYZ'') c of
        Some u \<Rightarrow> u
      | None \<Rightarrow> c)"

text \<open>
  For the examples: a tier whose prefix has lower-case letters, a tier whose prefix is
  the letter e with an acute accent (the bytes 195 and 169), and an engine function that
  upper-cases that letter (the bytes 195 and 137).
\<close>

definition lower_tier :: tier where
  "lower_tier =
     empty_tier\<lparr>tier_discountPercent := Some (Fin 15), discountCodePrefix := Some ''save-Me''\<rparr>"

definition accent_tier :: tier where
  "accent_tier =
     empty_tier\<lparr>tier_discountPercent := Some (Fin 10),
                 discountCodePrefix := Some [char_of (195::nat), char_of (169::nat)]\<rparr>"

definition sample_upper :: "string \<Rightarrow> string" where
  "sample_upper s =
     (if take 2 s = [char_of (195::nat), char_of (169::nat)]
      then [char_of (195::nat), char_of (137::nat)] @ map upper_char (drop 2 s)
      else s)"

subsection \<open>Outcomes of the creations\<close>

text \<open>
  What happens to each code: the entries of \<^verbatim>\<open>uniqueCodes\<close>, in the order of the loop, each
  with the outcome of its own creation, a failure with its error or a success.  The
  created codes are the entries that succeeded, with their percent, and the failed codes
  the entries that failed, with the message of their error.
\<close>

fun creation_outcomes ::
  "(rat \<Rightarrow> string) \<Rightarrow> 'w shopify_admin \<Rightarrow> 'w \<Rightarrow> (string \<times> jsnum) list \<Rightarrow>
   (string \<times> jsnum \<times> (js_error + unit)) list" where
  "creation_outcomes fmt api w [] = []"
| "creation_outcomes fmt api w ((code, percentage) # rest) =
     (case create_one fmt api w code percentage of
        (res, w') \<Rightarrow> (code, percentage, res) # creation_outcomes fmt api w' rest)"

definition spec_created :: "(string \<times> jsnum \<times> (js_error + unit)) list \<Rightarrow> created_code list" where
  "spec_created outs =
     List.map_filter
       (\<lambda>(code, percentage, res).
          case res of
            Inr u \<Rightarrow> Some \<lparr>cc_code = code, cc_percentage = percentage\<rparr>
          | Inl e \<Rightarrow> None) outs"

definition spec_failed :: "(string \<times> jsnum \<times> (js_error + unit)) list \<Rightarrow> failed_code list" where
  "spec_failed outs =
     List.map_filter
       (\<lambda>(code, percentage, res).
          case res of
            Inl e \<Rightarrow> Some \<lparr>fc_code = code, fc_error = message e\<rparr>
          | Inr u \<Rightarrow> None) outs"

definition discount_outcomes ::
  "(rat \<Rightarrow> string) \<Rightarrow> 'w shopify_admin \<Rightarrow> 'w \<Rightarrow> discount_rec list \<Rightarrow>
   (string \<times> jsnum \<times> (js_error + unit)) list" where
  "discount_outcomes fmt api w recs =
     creation_outcomes fmt api w (object_entries (unique_codes recs))"

section \<open>Properties of the tier rule matcher\<close>

lemma str_or_cases: "str_or x d = (case x of Some (c # cs) \<Rightarrow> c # cs | _ \<Rightarrow> d)"
  by (simp add: str_or_def split: option.splits list.splits)

lemma tier_loop_step:
  "tier_loop fmt up c (t # rest) =
     (if spec_tier_matches c t then Some (spec_tier_recommendation fmt up c t)
      else tier_loop fmt up c rest)"
  by (simp add: Let_def spec_tier_matches_def spec_days_in_bounds_def spec_in_range_def js_ge_def num_else_def
      spec_tier_recommendation_def spec_build_def spec_code_def rule_match_text_def str_or_cases
      split: option.splits)

lemma tier_loop_find:
  "tier_loop fmt up c ts = map_option (spec_tier_recommendation fmt up c) (find (spec_tier_matches c) ts)"
  by (induction ts) (simp_all add: tier_loop_step del: tier_loop.simps(2))

lemma applyRule_characterisation:
  "applyRuleConfigToCustomer fmt up c (Some cfg) =
     (case find (spec_tier_matches c) (config_tiers cfg) of
        Some t \<Rightarrow> Some (spec_tier_recommendation fmt up c t)
      | None \<Rightarrow> map_option (spec_default_recommendation fmt up c) (default_tier cfg))"
  by (simp add: applyRuleConfigToCustomer_def tier_loop_find config_tiers_def Let_def
      spec_default_recommendation_def spec_build_def spec_code_def str_or_cases
      split: option.splits)

lemma find_first: "(\<forall>u\<in>set pre. \<not> P u) \<Longrightarrow> P t \<Longrightarrow> find P (pre @ t # post) = Some t"
  by (induction pre) simp_all

lemma find_none: "(\<forall>u\<in>set ts. \<not> P u) \<Longrightarrow> find P ts = None"
  by (induction ts) simp_all

text \<open>
  Claim C1.  The matcher takes the tiers in list order and returns the recommendation built
  from the first tier whose bounds hold, both inclusive, for the total spent and for the
  days since the last order.  For the overlapping tiers with spend bounds \<open>[0, 100]\<close>
  (10 percent) and \<open>[50, 150]\<close> (20 percent), a customer who spent 75 and whose days
  satisfy the day bounds of both tiers gets 10 percent.
\<close>

theorem tier_first_match_wins:
  "(tiers cfg = Some (pre @ t # post) \<longrightarrow> (\<forall>u\<in>set pre. \<not> spec_tier_matches c u) \<longrightarrow>
      spec_tier_matches c t \<longrightarrow>
      applyRuleConfigToCustomer fmt up c (Some cfg) = Some (spec_tier_recommendation fmt up c t)) \<and>
   (totalSpent c' = Fin 75 \<longrightarrow> (\<forall>u\<in>set overlapping_tiers. spec_days_in_bounds c' u) \<longrightarrow>
      map_option discountPercent
        (applyRuleConfigToCustomer fmt up c' (Some \<lparr>tiers = Some overlapping_tiers, default_tier = d\<rparr>)) =
      Some (Fin 10))"
proof (intro conjI impI)
  assume "tiers cfg = Some (pre @ t # post)" "\<forall>u\<in>set pre. \<not> spec_tier_matches c u"
    "spec_tier_matches c t"
  then show "applyRuleConfigToCustomer fmt up c (Some cfg) = Some (spec_tier_recommendation fmt up c t)"
    by (simp add: applyRule_characterisation config_tiers_def find_first)
next
  assume spent: "totalSpent c' = Fin 75"
    and days: "\<forall>u\<in>set overlapping_tiers. spec_days_in_bounds c' u"
  have "spec_tier_matches c' (hd overlapping_tiers)"
    using spent days
    by (simp add: overlapping_tiers_def spec_tier_matches_def spec_in_range_def empty_tier_def)
  then show "map_option discountPercent
        (applyRuleConfigToCustomer fmt up c' (Some \<lparr>tiers = Some overlapping_tiers, default_tier = d\<rparr>)) =
      Some (Fin 10)"
    by (simp add: applyRule_characterisation config_tiers_def overlapping_tiers_def
        spec_tier_recommendation_def spec_build_def num_or_def empty_tier_def)
qed


text \<open>
  The overlapping tiers at a customer who spent 75, 30 days after the last order: both
  tiers match, the first one is returned.
\<close>

theorem tier_first_match_wins_witness:
  "tiers \<lparr>tiers = Some overlapping_tiers, default_tier = None\<rparr> =
     Some ([] @ hd overlapping_tiers # tl overlapping_tiers) \<and>
   spec_tier_matches (sample_customer (Fin 75) (Fin 30)) (hd overlapping_tiers) \<and>
   spec_tier_matches (sample_customer (Fin 75) (Fin 30)) (hd (tl overlapping_tiers)) \<and>
   list_all (spec_days_in_bounds (sample_customer (Fin 75) (Fin 30))) overlapping_tiers \<and>
   applyRuleConfigToCustomer (\<lambda>q. []) (\<lambda>s. s) (sample_customer (Fin 75) (Fin 30))
     (Some \<lparr>tiers = Some overlapping_tiers, default_tier = None\<rparr>) =
   Some \<lparr>customerId = 1, rec_email = Some ''a@example.com'', discountPercent = Fin 10,
         discountCode = ''WINBACK10'',
         rationale = ''Rule match: spent between 0'' @ en_dash @ ''100, inactive 0'' @ en_dash @
                     ''Infinity days.'',
         messagingAngle = ''Personalized win-back offer based on your purchase history.'',
         expectedValue = None\<rparr> \<and>
   map_option discountPercent
     (applyRuleConfigToCustomer (\<lambda>q. []) (\<lambda>s. s) (sample_customer (Fin 75) (Fin 30))
        (Some \<lparr>tiers = Some overlapping_tiers, default_tier = None\<rparr>)) = Some (Fin 10)"
proof -
  let ?c = "sample_customer (Fin 75) (Fin 30)"
  let ?cfg = "\<lparr>tiers = Some overlapping_tiers, default_tier = None\<rparr>"
  have h1: "tiers ?cfg = Some ([] @ hd overlapping_tiers # tl overlapping_tiers)"
    by (simp add: overlapping_tiers_def)
  have h2: "\<forall>u\<in>set []. \<not> spec_tier_matches ?c u"
    by simp
  have h3: "spec_tier_matches ?c (hd overlapping_tiers)"
    by code_simp
  have h3': "spec_tier_matches ?c (hd (tl overlapping_tiers))"
    by code_simp
  have h4: "totalSpent ?c = Fin 75"
    by (simp add: sample_customer_def)
  have h5: "\<forall>u\<in>set overlapping_tiers. spec_days_in_bounds ?c u"
    by code_simp
  have v: "spec_tier_recommendation (\<lambda>q. []) (\<lambda>s. s) ?c (hd overlapping_tiers) =
      \<lparr>customerId = 1, rec_email = Some ''a@example.com'', discountPercent = Fin 10,
         discountCode = ''WINBACK10'',
         rationale = ''Rule match: spent between 0'' @ en_dash @ ''100, inactive 0'' @ en_dash @
                     ''Infinity days.'',
         messagingAngle = ''Personalized win-back offer based on your purchase history.'',
         expectedValue = None\<rparr>"
    by code_simp
  have first: "applyRuleConfigToCustomer (\<lambda>q. []) (\<lambda>s. s) ?c (Some ?cfg) =
      Some (spec_tier_recommendation (\<lambda>q. []) (\<lambda>s. s) ?c (hd overlapping_tiers))"
    using tier_first_match_wins [where cfg = "?cfg" and pre = "[]" and t = "hd overlapping_tiers"
        and post = "tl overlapping_tiers" and c = "?c" and fmt = "\<lambda>q. []" and up = "\<lambda>s. s"] h1 h2 h3
    by blast
  have particular: "map_option discountPercent (applyRuleConfigToCustomer (\<lambda>q. []) (\<lambda>s. s) ?c (Some ?cfg)) =
      Some (Fin 10)"
    using tier_first_match_wins [where c' = "?c" and fmt = "\<lambda>q. []" and up = "\<lambda>s. s" and d = None] h4 h5
    by blast
  show ?thesis
    using h1 h3 h3' h5 first particular v by (simp add: list_all_iff)
qed


section \<open>Default tier and discount code\<close>

lemma number_to_string_15: "number_to_string fmt (Fin 15) = ''15''"
  by code_simp

lemma number_to_string_20: "number_to_string fmt (Fin 20) = ''20''"
  by code_simp

lemma upper_SAVE15: "toUpperCase up (''SAVE'' @ ''15'') = ''SAVE15''"
  by code_simp

lemma upper_WINBACK20: "toUpperCase up (''WINBACK'' @ ''20'') = ''WINBACK20''"
  by code_simp

text \<open>
  Claim C5.  When no tier matches, a present default tier gives the recommendation, built
  as for a tier and with no test of the default's bounds; the two constructions differ
  only in the generic rationale and messaging texts.  With no tier matching and no default
  the matcher returns \<^verbatim>\<open>null\<close>.
\<close>

theorem default_tier_applies:
  "((\<forall>u\<in>set (config_tiers cfg). \<not> spec_tier_matches c u) \<longrightarrow>
      applyRuleConfigToCustomer fmt up c (Some cfg) =
        (case default_tier cfg of
           Some d \<Rightarrow> Some (spec_default_recommendation fmt up c d)
         | None \<Rightarrow> None)) \<and>
   spec_default_recommendation fmt up c d =
     (spec_tier_recommendation fmt up c d)
       \<lparr>rationale := str_or (tier_rationale d) ''Default rule applied.'',
        messagingAngle := str_or (tier_messagingAngle d)
          ''We appreciate you and wanted to send you a special offer.''\<rparr>"
proof (intro conjI impI)
  assume "\<forall>u\<in>set (config_tiers cfg). \<not> spec_tier_matches c u"
  then have "find (spec_tier_matches c) (config_tiers cfg) = None"
    by (rule find_none)
  then show "applyRuleConfigToCustomer fmt up c (Some cfg) =
        (case default_tier cfg of
           Some d \<Rightarrow> Some (spec_default_recommendation fmt up c d)
         | None \<Rightarrow> None)"
    by (simp add: applyRule_characterisation split: option.splits)
next
  show "spec_default_recommendation fmt up c d =
     (spec_tier_recommendation fmt up c d)
       \<lparr>rationale := str_or (tier_rationale d) ''Default rule applied.'',
        messagingAngle := str_or (tier_messagingAngle d)
          ''We appreciate you and wanted to send you a special offer.''\<rparr>"
    by (simp add: spec_default_recommendation_def spec_tier_recommendation_def spec_build_def
        str_or_cases)
qed

text \<open>
  A customer outside the bounds of the only tier and outside the bounds of the default
  tier: the default applies all the same; without a default the result is \<^verbatim>\<open>null\<close>.
\<close>

theorem default_tier_applies_witness:
  "\<not> spec_tier_matches (sample_customer (Fin 75) (Fin 30)) high_spend_tier \<and>
   \<not> spec_tier_matches (sample_customer (Fin 75) (Fin 30)) strict_default \<and>
   applyRuleConfigToCustomer (\<lambda>q. []) (\<lambda>s. s) (sample_customer (Fin 75) (Fin 30))
     (Some \<lparr>tiers = Some [high_spend_tier], default_tier = Some strict_default\<rparr>) =
   Some \<lparr>customerId = 1, rec_email = Some ''a@example.com'', discountPercent = Fin 5,
         discountCode = ''HELLO5'', rationale = ''Default rule applied.'',
         messagingAngle = ''We appreciate you and wanted to send you a special offer.'',
         expectedValue = None\<rparr> \<and>
   applyRuleConfigToCustomer (\<lambda>q. []) (\<lambda>s. s) (sample_customer (Fin 75) (Fin 30))
     (Some \<lparr>tiers = Some [high_spend_tier], default_tier = None\<rparr>) = None"
proof -
  let ?c = "sample_customer (Fin 75) (Fin 30)"
  have n1: "\<not> spec_tier_matches ?c high_spend_tier"
    by code_simp
  have n2: "\<not> spec_tier_matches ?c strict_default"
    by code_simp
  have h: "\<forall>u\<in>set (config_tiers \<lparr>tiers = Some [high_spend_tier], default_tier = dflt\<rparr>).
      \<not> spec_tier_matches ?c u" for dflt
    using n1 by (simp add: config_tiers_def)
  have v: "spec_default_recommendation (\<lambda>q. []) (\<lambda>s. s) ?c strict_default =
      \<lparr>customerId = 1, rec_email = Some ''a@example.com'', discountPercent = Fin 5,
         discountCode = ''HELLO5'', rationale = ''Default rule applied.'',
         messagingAngle = ''We appreciate you and wanted to send you a special offer.'',
         expectedValue = None\<rparr>"
    by code_simp
  have a: "applyRuleConfigToCustomer (\<lambda>q. []) (\<lambda>s. s) ?c
      (Some \<lparr>tiers = Some [high_spend_tier], default_tier = Some strict_default\<rparr>) =
      Some (spec_default_recommendation (\<lambda>q. []) (\<lambda>s. s) ?c strict_default)"
    using default_tier_applies [where cfg = "\<lparr>tiers = Some [high_spend_tier],
        default_tier = Some strict_default\<rparr>" and c = "?c" and fmt = "\<lambda>q. []" and up = "\<lambda>s. s"] h
    by simp
  have b: "applyRuleConfigToCustomer (\<lambda>q. []) (\<lambda>s. s) ?c
      (Some \<lparr>tiers = Some [high_spend_tier], default_tier = None\<rparr>) = None"
    using default_tier_applies [where cfg = "\<lparr>tiers = Some [high_spend_tier],
        default_tier = None\<rparr>" and c = "?c" and fmt = "\<lambda>q. []" and up = "\<lambda>s. s"] h
    by simp
  show ?thesis
    using n1 n2 a b v by simp
qed

text \<open>
  On ASCII strings \<^verbatim>\<open>toUpperCase\<close> is the table of the twenty-six letters, and leaves no
  lower-case letter.
\<close>

lemma upper_char_table: "upper_char c = spec_upper_char c"
proof (cases c)
  case (Char b0 b1 b2 b3 b4 b5 b6 b7)
  then show ?thesis
    by (cases b0; cases b1; cases b2; cases b3; cases b4; cases b5; cases b6; cases b7)
      (simp_all add: upper_char_def spec_upper_char_def Let_def char_of_eq_iff)
qed


lemma toUpperCase_ascii: "is_ascii s \<Longrightarrow> toUpperCase up s = map spec_upper_char s"
  by (simp add: toUpperCase_def upper_char_table)

lemma spec_upper_char_not_lower:
  "spec_upper_char c \<notin> set ''abcdefghijklmnopqrstuvwxyz''"
proof (cases c)
  case (Char b0 b1 b2 b3 b4 b5 b6 b7)
  then show ?thesis
    by (cases b0; cases b1; cases b2; cases b3; cases b4; cases b5; cases b6; cases b7)
      (simp_all add: spec_upper_char_def)
qed

lemma upper_save_Me15: "toUpperCase up (''save-Me'' @ ''15'') = ''SAVE-ME15''"
  by code_simp

text \<open>
  Claim C6.  When the selected tier (the first matching tier, else the default) has no
  explicit discount code, the code of the recommendation is the upper-cased concatenation
  of the tier's prefix, \<^verbatim>\<open>WINBACK\<close> when unset, and the discount percent of the
  recommendation, 0 when unset.  Where the concatenation is ASCII the code is the
  concatenation with each of the letters \<^verbatim>\<open>a\<close> to \<^verbatim>\<open>z\<close> replaced by its capital, and has no
  lower-case letter left; elsewhere it is what the engine's \<^verbatim>\<open>toUpperCase\<close> returns.  Prefix
  \<^verbatim>\<open>SAVE\<close> and 15 percent give \<^verbatim>\<open>SAVE15\<close>, no prefix and 20 percent give \<^verbatim>\<open>WINBACK20\<close>, prefix
  \<^verbatim>\<open>save-Me\<close> and 15 percent give \<^verbatim>\<open>SAVE-ME15\<close>.
\<close>

theorem discount_code_synthesis:
  "spec_selected_tier c cfg = Some t \<and> \<not> truthy_str (tier_discountCode t) \<longrightarrow>
   (\<exists>r. applyRuleConfigToCustomer fmt up c (Some cfg) = Some r \<and>
        discountPercent r = num_or (tier_discountPercent t) (Fin 0) \<and>
        discountCode r =
          toUpperCase up (str_or (discountCodePrefix t) ''WINBACK'' @
                          number_to_string fmt (discountPercent r)) \<and>
        (is_ascii (str_or (discountCodePrefix t) ''WINBACK'' @
                   number_to_string fmt (discountPercent r)) \<longrightarrow>
           discountCode r =
             map spec_upper_char (str_or (discountCodePrefix t) ''WINBACK'' @
                                  number_to_string fmt (discountPercent r)) \<and>
           list_all (\<lambda>ch. ch \<notin> set ''abcdefghijklmnopqrstuvwxyz'') (discountCode r)) \<and>
        (\<not> is_ascii (str_or (discountCodePrefix t) ''WINBACK'' @
                     number_to_string fmt (discountPercent r)) \<longrightarrow>
           discountCode r =
             up (str_or (discountCodePrefix t) ''WINBACK'' @
                 number_to_string fmt (discountPercent r))) \<and>
        (discountCodePrefix t = Some ''SAVE'' \<and> tier_discountPercent t = Some (Fin 15) \<longrightarrow>
           discountCode r = ''SAVE15'') \<and>
        (discountCodePrefix t = None \<and> tier_discountPercent t = Some (Fin 20) \<longrightarrow>
           discountCode r = ''WINBACK20'') \<and>
        (discountCodePrefix t = Some ''save-Me'' \<and> tier_discountPercent t = Some (Fin 15) \<longrightarrow>
           discountCode r = ''SAVE-ME15''))"
proof (intro impI, elim conjE)
  assume sel: "spec_selected_tier c cfg = Some t" and nocode: "\<not> truthy_str (tier_discountCode t)"
  let ?s = "str_or (discountCodePrefix t) ''WINBACK'' @
      number_to_string fmt (num_or (tier_discountPercent t) (Fin 0))"
  have code: "spec_code fmt up t = toUpperCase up ?s"
    using nocode by (cases "tier_discountCode t") (simp_all add: spec_code_def str_or_cases)
  have fields: "discountPercent (spec_build fmt up c t g a) = num_or (tier_discountPercent t) (Fin 0) \<and>
      discountCode (spec_build fmt up c t g a) = spec_code fmt up t" for g a
    by (simp add: spec_build_def)
  obtain r where r: "applyRuleConfigToCustomer fmt up c (Some cfg) = Some r"
    and built: "\<exists>g a. r = spec_build fmt up c t g a"
  proof (cases "find (spec_tier_matches c) (config_tiers cfg)")
    case None
    with sel have "default_tier cfg = Some t"
      by (simp add: spec_selected_tier_def)
    with None have "applyRuleConfigToCustomer fmt up c (Some cfg) =
        Some (spec_default_recommendation fmt up c t)"
      by (simp add: applyRule_characterisation)
    then show ?thesis
      using that by (auto simp: spec_default_recommendation_def)
  next
    case (Some u)
    with sel have "u = t"
      by (simp add: spec_selected_tier_def)
    with Some have "applyRuleConfigToCustomer fmt up c (Some cfg) =
        Some (spec_tier_recommendation fmt up c t)"
      by (simp add: applyRule_characterisation)
    then show ?thesis
      using that by (auto simp: spec_tier_recommendation_def)
  qed
  from built fields have p: "discountPercent r = num_or (tier_discountPercent t) (Fin 0)"
    and c: "discountCode r = toUpperCase up ?s"
    using code by auto
  have ascii: "discountCode r = map spec_upper_char ?s \<and>
      list_all (\<lambda>ch. ch \<notin> set ''abcdefghijklmnopqrstuvwxyz'') (discountCode r)"
    if "is_ascii ?s"
  proof -
    have "discountCode r = map spec_upper_char ?s"
      using c that by (simp only: toUpperCase_ascii)
    moreover have "list_all (\<lambda>ch. ch \<notin> set ''abcdefghijklmnopqrstuvwxyz'')
        (map spec_upper_char ?s)"
      unfolding list_all_iff using spec_upper_char_not_lower by auto
    ultimately show ?thesis
      by simp
  qed
  have other: "discountCode r = up ?s" if "\<not> is_ascii ?s"
    using c that by (simp add: toUpperCase_def)
  have save: "discountCode r = ''SAVE15''"
    if "discountCodePrefix t = Some ''SAVE'' \<and> tier_discountPercent t = Some (Fin 15)"
    using that c number_to_string_15 [of fmt] upper_SAVE15 [of up]
    by (simp add: str_or_def num_or_def)
  have winback: "discountCode r = ''WINBACK20''"
    if "discountCodePrefix t = None \<and> tier_discountPercent t = Some (Fin 20)"
    using that c number_to_string_20 [of fmt] upper_WINBACK20 [of up]
    by (simp add: str_or_def num_or_def)
  have lower: "discountCode r = ''SAVE-ME15''"
    if "discountCodePrefix t = Some ''save-Me'' \<and> tier_discountPercent t = Some (Fin 15)"
    using that c number_to_string_15 [of fmt] upper_save_Me15 [of up]
    by (simp add: str_or_def num_or_def)
  show "\<exists>r. applyRuleConfigToCustomer fmt up c (Some cfg) = Some r \<and>
        discountPercent r = num_or (tier_discountPercent t) (Fin 0) \<and>
        discountCode r =
          toUpperCase up (str_or (discountCodePrefix t) ''WINBACK'' @
                          number_to_string fmt (discountPercent r)) \<and>
        (is_ascii (str_or (discountCodePrefix t) ''WINBACK'' @
                   number_to_string fmt (discountPercent r)) \<longrightarrow>
           discountCode r =
             map spec_upper_char (str_or (discountCodePrefix t) ''WINBACK'' @
                                  number_to_string fmt (discountPercent r)) \<and>
           list_all (\<lambda>ch. ch \<notin> set ''abcdefghijklmnopqrstuvwxyz'') (discountCode r)) \<and>
        (\<not> is_ascii (str_or (discountCodePrefix t) ''WINBACK'' @
                     number_to_string fmt (discountPercent r)) \<longrightarrow>
           discountCode r =
             up (str_or (discountCodePrefix t) ''WINBACK'' @
                 number_to_string fmt (discountPercent r))) \<and>
        (discountCodePrefix t = Some ''SAVE'' \<and> tier_discountPercent t = Some (Fin 15) \<longrightarrow>
           discountCode r = ''SAVE15'') \<and>
        (discountCodePrefix t = None \<and> tier_discountPercent t = Some (Fin 20) \<longrightarrow>
           discountCode r = ''WINBACK20'') \<and>
        (discountCodePrefix t = Some ''save-Me'' \<and> tier_discountPercent t = Some (Fin 15) \<longrightarrow>
           discountCode r = ''SAVE-ME15'')"
  proof (intro exI [of _ r] conjI impI)
    show "applyRuleConfigToCustomer fmt up c (Some cfg) = Some r" by (rule r)
    show "discountPercent r = num_or (tier_discountPercent t) (Fin 0)" by (rule p)
    show "discountCode r = toUpperCase up (str_or (discountCodePrefix t) ''WINBACK'' @
        number_to_string fmt (discountPercent r))"
      using c unfolding p by blast
    show "discountCode r = map spec_upper_char (str_or (discountCodePrefix t) ''WINBACK'' @
        number_to_string fmt (discountPercent r))"
      if "is_ascii (str_or (discountCodePrefix t) ''WINBACK'' @
        number_to_string fmt (discountPercent r))"
      using ascii [OF that [unfolded p]] unfolding p by blast
    show "list_all (\<lambda>ch. ch \<notin> set ''abcdefghijklmnopqrstuvwxyz'') (discountCode r)"
      if "is_ascii (str_or (discountCodePrefix t) ''WINBACK'' @
        number_to_string fmt (discountPercent r))"
      using ascii [OF that [unfolded p]] unfolding p by blast
    show "discountCode r = up (str_or (discountCodePrefix t) ''WINBACK'' @
        number_to_string fmt (discountPercent r))"
      if "\<not> is_ascii (str_or (discountCodePrefix t) ''WINBACK'' @
        number_to_string fmt (discountPercent r))"
      using other [OF that [unfolded p]] unfolding p by blast
    show "discountCode r = ''SAVE15''"
      if "discountCodePrefix t = Some ''SAVE'' \<and> tier_discountPercent t = Some (Fin 15)"
      using save that by simp
    show "discountCode r = ''WINBACK20''"
      if "discountCodePrefix t = None \<and> tier_discountPercent t = Some (Fin 20)"
      using winback that by simp
    show "discountCode r = ''SAVE-ME15''"
      if "discountCodePrefix t = Some ''save-Me'' \<and> tier_discountPercent t = Some (Fin 15)"
      using lower that by simp
  qed
qed


theorem discount_code_synthesis_witness:
  "spec_selected_tier (sample_customer (Fin 75) (Fin 30))
     \<lparr>tiers = Some [high_spend_tier, save_tier], default_tier = Some plain_default\<rparr> =
     Some save_tier \<and>
   \<not> truthy_str (tier_discountCode save_tier) \<and>
   map_option discountCode
     (applyRuleConfigToCustomer (\<lambda>q. []) sample_upper (sample_customer (Fin 75) (Fin 30))
        (Some \<lparr>tiers = Some [high_spend_tier, save_tier], default_tier = Some plain_default\<rparr>)) =
     Some ''SAVE15'' \<and>
   spec_selected_tier (sample_customer (Fin 75) (Fin 30))
     \<lparr>tiers = Some [high_spend_tier], default_tier = Some plain_default\<rparr> =
     Some plain_default \<and>
   \<not> truthy_str (tier_discountCode plain_default) \<and>
   map_option discountCode
     (applyRuleConfigToCustomer (\<lambda>q. []) sample_upper (sample_customer (Fin 75) (Fin 30))
        (Some \<lparr>tiers = Some [high_spend_tier], default_tier = Some plain_default\<rparr>)) =
     Some ''WINBACK20'' \<and>
   spec_selected_tier (sample_customer (Fin 75) (Fin 30))
     \<lparr>tiers = Some [lower_tier], default_tier = None\<rparr> = Some lower_tier \<and>
   \<not> truthy_str (tier_discountCode lower_tier) \<and>
   map_option discountCode
     (applyRuleConfigToCustomer (\<lambda>q. []) sample_upper (sample_customer (Fin 75) (Fin 30))
        (Some \<lparr>tiers = Some [lower_tier], default_tier = None\<rparr>)) =
     Some ''SAVE-ME15'' \<and>
   spec_selected_tier (sample_customer (Fin 75) (Fin 30))
     \<lparr>tiers = Some [accent_tier], default_tier = None\<rparr> = Some accent_tier \<and>
   \<not> truthy_str (tier_discountCode accent_tier) \<and>
   \<not> is_ascii ([char_of (195::nat), char_of (169::nat)] @ ''10'') \<and>
   map_option discountCode
     (applyRuleConfigToCustomer (\<lambda>q. []) sample_upper (sample_customer (Fin 75) (Fin 30))
        (Some \<lparr>tiers = Some [accent_tier], default_tier = None\<rparr>)) =
     Some ([char_of (195::nat), char_of (137::nat)] @ ''10'')"
proof -
  let ?c = "sample_customer (Fin 75) (Fin 30)"
  let ?cfg1 = "\<lparr>tiers = Some [high_spend_tier, save_tier], default_tier = Some plain_default\<rparr>"
  let ?cfg2 = "\<lparr>tiers = Some [high_spend_tier], default_tier = Some plain_default\<rparr>"
  let ?cfg3 = "\<lparr>tiers = Some [lower_tier], default_tier = None\<rparr>"
  let ?cfg4 = "\<lparr>tiers = Some [accent_tier], default_tier = None\<rparr>"
  have s1: "spec_selected_tier ?c ?cfg1 = Some save_tier"
    by code_simp
  have s2: "spec_selected_tier ?c ?cfg2 = Some plain_default"
    by code_simp
  have s3: "spec_selected_tier ?c ?cfg3 = Some lower_tier"
    by code_simp
  have s4: "spec_selected_tier ?c ?cfg4 = Some accent_tier"
    by code_simp
  have e1: "\<not> truthy_str (tier_discountCode save_tier)"
    by code_simp
  have e2: "\<not> truthy_str (tier_discountCode plain_default)"
    by code_simp
  have e3: "\<not> truthy_str (tier_discountCode lower_tier)"
    by code_simp
  have e4: "\<not> truthy_str (tier_discountCode accent_tier)"
    by code_simp
  have f1: "discountCodePrefix save_tier = Some ''SAVE'' \<and>
      tier_discountPercent save_tier = Some (Fin 15)"
    by (simp add: save_tier_def empty_tier_def)
  have f2: "discountCodePrefix plain_default = None \<and>
      tier_discountPercent plain_default = Some (Fin 20)"
    by (simp add: plain_default_def empty_tier_def)
  have f3: "discountCodePrefix lower_tier = Some ''save-Me'' \<and>
      tier_discountPercent lower_tier = Some (Fin 15)"
    by (simp add: lower_tier_def empty_tier_def)
  have f4: "str_or (discountCodePrefix accent_tier) ''WINBACK'' @
      number_to_string (\<lambda>q. []) (num_or (tier_discountPercent accent_tier) (Fin 0)) =
      [char_of (195::nat), char_of (169::nat)] @ ''10''"
    by code_simp
  have na: "\<not> is_ascii ([char_of (195::nat), char_of (169::nat)] @ ''10'')"
    by code_simp
  have up4: "sample_upper ([char_of (195::nat), char_of (169::nat)] @ ''10'') =
      [char_of (195::nat), char_of (137::nat)] @ ''10''"
    by code_simp
  from discount_code_synthesis [where c = "?c" and cfg = "?cfg1" and t = save_tier
      and fmt = "\<lambda>q. []" and up = sample_upper] s1 e1 f1
  have a: "map_option discountCode
      (applyRuleConfigToCustomer (\<lambda>q. []) sample_upper ?c (Some ?cfg1)) = Some ''SAVE15''"
    by auto
  from discount_code_synthesis [where c = "?c" and cfg = "?cfg2" and t = plain_default
      and fmt = "\<lambda>q. []" and up = sample_upper] s2 e2 f2
  have b: "map_option discountCode
      (applyRuleConfigToCustomer (\<lambda>q. []) sample_upper ?c (Some ?cfg2)) = Some ''WINBACK20''"
    by auto
  from discount_code_synthesis [where c = "?c" and cfg = "?cfg3" and t = lower_tier
      and fmt = "\<lambda>q. []" and up = sample_upper] s3 e3 f3
  have l: "map_option discountCode
      (applyRuleConfigToCustomer (\<lambda>q. []) sample_upper ?c (Some ?cfg3)) = Some ''SAVE-ME15''"
    by auto
  from discount_code_synthesis [where c = "?c" and cfg = "?cfg4" and t = accent_tier
      and fmt = "\<lambda>q. []" and up = sample_upper] s4 e4
  obtain r where r: "applyRuleConfigToCustomer (\<lambda>q. []) sample_upper ?c (Some ?cfg4) = Some r"
    and p: "discountPercent r = num_or (tier_discountPercent accent_tier) (Fin 0)"
    and other: "\<not> is_ascii (str_or (discountCodePrefix accent_tier) ''WINBACK'' @
        number_to_string (\<lambda>q. []) (discountPercent r)) \<longrightarrow>
      discountCode r = sample_upper (str_or (discountCodePrefix accent_tier) ''WINBACK'' @
        number_to_string (\<lambda>q. []) (discountPercent r))"
    by blast
  have "discountCode r = sample_upper ([char_of (195::nat), char_of (169::nat)] @ ''10'')"
    using other na unfolding p f4 by (rule mp)
  then have "discountCode r = [char_of (195::nat), char_of (137::nat)] @ ''10''"
    by (simp only: up4)
  with r have d: "map_option discountCode
      (applyRuleConfigToCustomer (\<lambda>q. []) sample_upper ?c (Some ?cfg4)) =
      Some ([char_of (195::nat), char_of (137::nat)] @ ''10'')"
    by simp
  show ?thesis
    using s1 s2 s3 s4 e1 e2 e3 e4 na a b l d by blast
qed

section \<open>Properties of the metrics reducer\<close>

text \<open>
  Claim C3 as stated fails on a spend string that does not parse: the fallback
  \<^verbatim>\<open>'0.00'\<close> replaces a missing or empty string only, and \<^verbatim>\<open>parseFloat('abc')\<close> is \<open>NaN\<close>, not 0.
\<close>

theorem unparseable_spend_counterexample:
  "parseFloat ''abc'' = NaN \<and>
   totalSpent (customerWithMetrics sample_date_time 0 garbled_spend_customer) = NaN \<and>
   totalSpent (customerWithMetrics sample_date_time 0 garbled_spend_customer) \<noteq> Fin 0"
  by code_simp

text \<open>
  Claim C3, amended.  The reducer is a function of the raw record, the parsed dates and
  the clock, with no error result.  A missing order count gives \<open>totalOrders = 0\<close>; a
  missing or empty spend string gives \<open>totalSpent = 0\<close>, and any other spend string gives
  what \<^verbatim>\<open>parseFloat\<close> reads from it (\<open>NaN\<close> when it does not parse); with neither
  \<^verbatim>\<open>updated_at\<close> nor \<^verbatim>\<open>created_at\<close> the days since the last order are 999; otherwise, for a
  timestamp that parses to the time \<open>t\<close>, they are the floor of \<open>(now - t)\<close> over 86400000
  milliseconds, negative when \<open>t\<close> lies in the future.
\<close>

theorem metrics_reducer_rules:
  "(orders_count r = None \<longrightarrow>
      totalOrders (customerWithMetrics dateTime now r) = Fin 0) \<and>
   (\<not> truthy_str (total_spent r) \<longrightarrow>
      totalSpent (customerWithMetrics dateTime now r) = Fin 0) \<and>
   (total_spent r = Some s \<and> s \<noteq> [] \<longrightarrow>
      totalSpent (customerWithMetrics dateTime now r) = parseFloat s) \<and>
   (\<not> truthy_str (updated_at r) \<and> \<not> truthy_str (created_at r) \<longrightarrow>
      daysSinceLastOrder (customerWithMetrics dateTime now r) = Fin 999) \<and>
   (or_opt (updated_at r) (created_at r) = Some d \<and> d \<noteq> [] \<and> dateTime d = Fin (of_int t) \<longrightarrow>
      daysSinceLastOrder (customerWithMetrics dateTime now r) =
        Fin (of_int ((now - t) div 86400000)) \<and>
      (now < t \<longrightarrow> js_lt (daysSinceLastOrder (customerWithMetrics dateTime now r)) (Fin 0)))"
proof (intro conjI impI)
  assume "orders_count r = None"
  then show "totalOrders (customerWithMetrics dateTime now r) = Fin 0"
    by (simp add: customerWithMetrics_def Let_def num_or_def)
next
  assume "\<not> truthy_str (total_spent r)"
  then have "str_or (total_spent r) ''0.00'' = ''0.00''"
    by (cases "total_spent r") (simp_all add: str_or_def)
  moreover have "parseFloat ''0.00'' = Fin 0"
    by code_simp
  ultimately show "totalSpent (customerWithMetrics dateTime now r) = Fin 0"
    by (simp add: customerWithMetrics_def Let_def)
next
  assume "total_spent r = Some s \<and> s \<noteq> []"
  then show "totalSpent (customerWithMetrics dateTime now r) = parseFloat s"
    by (simp add: customerWithMetrics_def Let_def str_or_def)
next
  assume "\<not> truthy_str (updated_at r) \<and> \<not> truthy_str (created_at r)"
  then show "daysSinceLastOrder (customerWithMetrics dateTime now r) = Fin 999"
    by (cases "created_at r")
      (simp_all add: customerWithMetrics_def Let_def or_opt_def)
next
  assume a: "or_opt (updated_at r) (created_at r) = Some d \<and> d \<noteq> [] \<and> dateTime d = Fin (of_int t)"
  have fl: "\<lfloor>(of_int (now - t) :: rat) / 86400000\<rfloor> = (now - t) div 86400000"
    using floor_divide_of_int_eq [of "now - t" 86400000, where ?'a = rat] by simp
  from a show days: "daysSinceLastOrder (customerWithMetrics dateTime now r) =
      Fin (of_int ((now - t) div 86400000))"
    using fl by (simp add: customerWithMetrics_def Let_def)
  assume "now < t"
  then have "(now - t) div 86400000 < 0"
    by (simp add: div_neg_pos_less0 flip: less_iff_diff_less_0)
  then show "js_lt (daysSinceLastOrder (customerWithMetrics dateTime now r)) (Fin 0)"
    using days by simp
qed


text \<open>
  A record with nothing but its identifier, one with the spend \<^verbatim>\<open>abc\<close>, and one with three
  orders, the spend \<^verbatim>\<open>150.00\<close> and a timestamp 70 days before and 100 days after the clock.
\<close>

theorem metrics_reducer_rules_witness:
  "totalOrders (customerWithMetrics sample_date_time 0 bare_customer) = Fin 0 \<and>
   totalSpent (customerWithMetrics sample_date_time 0 bare_customer) = Fin 0 \<and>
   daysSinceLastOrder (customerWithMetrics sample_date_time 0 bare_customer) = Fin 999 \<and>
   totalSpent (customerWithMetrics sample_date_time 0 garbled_spend_customer) = NaN \<and>
   totalSpent (customerWithMetrics sample_date_time (170 * day_ms) returning_customer) = Fin 150 \<and>
   daysSinceLastOrder (customerWithMetrics sample_date_time (170 * day_ms) returning_customer) =
     Fin 70 \<and>
   daysSinceLastOrder (customerWithMetrics sample_date_time 0 returning_customer) = Fin (- 100) \<and>
   js_lt (daysSinceLastOrder (customerWithMetrics sample_date_time 0 returning_customer)) (Fin 0)"
proof -
  have b1: "orders_count bare_customer = None"
    by (simp add: bare_customer_def)
  have b2: "\<not> truthy_str (total_spent bare_customer)"
    by (simp add: bare_customer_def)
  have b3: "\<not> truthy_str (updated_at bare_customer) \<and> \<not> truthy_str (created_at bare_customer)"
    by (simp add: bare_customer_def)
  have g1: "total_spent garbled_spend_customer = Some ''abc'' \<and> ''abc'' \<noteq> []"
    by (simp add: garbled_spend_customer_def)
  have g2: "parseFloat ''abc'' = NaN"
    by code_simp
  have r1: "total_spent returning_customer = Some ''150.00'' \<and> ''150.00'' \<noteq> []"
    by (simp add: returning_customer_def bare_customer_def)
  have r2: "parseFloat ''150.00'' = Fin 150"
    by code_simp
  have r3: "or_opt (updated_at returning_customer) (created_at returning_customer) =
      Some ''2024-01-01T00:00:00Z'' \<and> ''2024-01-01T00:00:00Z'' \<noteq> [] \<and>
      sample_date_time ''2024-01-01T00:00:00Z'' = Fin (of_int (100 * day_ms))"
    by (simp add: returning_customer_def bare_customer_def or_opt_def sample_date_time_def)
  have d1: "(170 * day_ms - 100 * day_ms) div 86400000 = 70"
    by (simp add: day_ms_def)
  have d2: "(0 - 100 * day_ms) div 86400000 = - 100"
    by (simp add: day_ms_def)
  have d3: "0 < 100 * day_ms"
    by (simp add: day_ms_def)
  note bare = metrics_reducer_rules [where r = bare_customer and dateTime = sample_date_time
      and now = 0]
  note garbled = metrics_reducer_rules [where r = garbled_spend_customer and s = "''abc''"
      and dateTime = sample_date_time and now = 0]
  note past = metrics_reducer_rules [where r = returning_customer and s = "''150.00''"
      and d = "''2024-01-01T00:00:00Z''" and t = "100 * day_ms"
      and dateTime = sample_date_time and now = "170 * day_ms"]
  note future = metrics_reducer_rules [where r = returning_customer
      and d = "''2024-01-01T00:00:00Z''" and t = "100 * day_ms"
      and dateTime = sample_date_time and now = 0]
  have "totalOrders (customerWithMetrics sample_date_time 0 bare_customer) = Fin 0"
    using bare b1 by blast
  moreover have "totalSpent (customerWithMetrics sample_date_time 0 bare_customer) = Fin 0"
    using bare b2 by blast
  moreover have "daysSinceLastOrder (customerWithMetrics sample_date_time 0 bare_customer) = Fin 999"
    using bare b3 by blast
  moreover have "totalSpent (customerWithMetrics sample_date_time 0 garbled_spend_customer) = NaN"
    using garbled g1 g2 by simp
  moreover have
    "totalSpent (customerWithMetrics sample_date_time (170 * day_ms) returning_customer) = Fin 150"
    using past r1 r2 by simp
  moreover have
    "daysSinceLastOrder (customerWithMetrics sample_date_time (170 * day_ms) returning_customer) =
     Fin 70"
    using past r3 d1 by simp
  moreover have
    "daysSinceLastOrder (customerWithMetrics sample_date_time 0 returning_customer) = Fin (- 100)"
    using future r3 d2 by simp
  moreover have
    "js_lt (daysSinceLastOrder (customerWithMetrics sample_date_time 0 returning_customer)) (Fin 0)"
    using future r3 d3 by blast
  ultimately show ?thesis
    by simp
qed

text \<open>
  Claim C9.  The average order value is the quotient of the total spent by the total
  orders when the total orders are greater than 0, and 0 when they are 0: the division
  happens only under the test \<^verbatim>\<open>totalOrders > 0\<close>, so its divisor is never 0.
\<close>

theorem average_order_value_guarded:
  "(js_gt (totalOrders (customerWithMetrics dateTime now r)) (Fin 0) \<longrightarrow>
      averageOrderValue (customerWithMetrics dateTime now r) =
        js_div (totalSpent (customerWithMetrics dateTime now r))
          (totalOrders (customerWithMetrics dateTime now r)) \<and>
      totalOrders (customerWithMetrics dateTime now r) \<noteq> Fin 0) \<and>
   (totalOrders (customerWithMetrics dateTime now r) = Fin 0 \<longrightarrow>
      averageOrderValue (customerWithMetrics dateTime now r) = Fin 0) \<and>
   (totalOrders (customerWithMetrics dateTime now r) = Fin n \<and> 0 < n \<and>
    totalSpent (customerWithMetrics dateTime now r) = Fin q \<longrightarrow>
      averageOrderValue (customerWithMetrics dateTime now r) = Fin (q / n))"
  by (auto simp: customerWithMetrics_def Let_def js_gt_def)

text \<open>Three orders and a spend of 150 give an average of 50; no orders give 0.\<close>

theorem average_order_value_guarded_witness:
  "totalOrders (customerWithMetrics sample_date_time (170 * day_ms) returning_customer) = Fin 3 \<and>
   js_gt (totalOrders (customerWithMetrics sample_date_time (170 * day_ms) returning_customer))
     (Fin 0) \<and>
   totalSpent (customerWithMetrics sample_date_time (170 * day_ms) returning_customer) = Fin 150 \<and>
   averageOrderValue (customerWithMetrics sample_date_time (170 * day_ms) returning_customer) =
     Fin 50 \<and>
   totalOrders (customerWithMetrics sample_date_time 0 bare_customer) = Fin 0 \<and>
   averageOrderValue (customerWithMetrics sample_date_time 0 bare_customer) = Fin 0"
proof -
  let ?m = "customerWithMetrics sample_date_time (170 * day_ms) returning_customer"
  let ?b = "customerWithMetrics sample_date_time 0 bare_customer"
  have o: "totalOrders ?m = Fin 3"
    by code_simp
  have s: "totalSpent ?m = Fin 150"
    by code_simp
  have g: "js_gt (totalOrders ?m) (Fin 0)"
    using o by (simp add: js_gt_def)
  have z: "totalOrders ?b = Fin 0"
    by code_simp
  have "averageOrderValue ?m = Fin (150 / 3)"
    using average_order_value_guarded [where r = returning_customer and n = 3 and q = 150
        and dateTime = sample_date_time and now = "170 * day_ms"] o s
    by simp
  moreover have "averageOrderValue ?b = Fin 0"
    using average_order_value_guarded [where r = bare_customer
        and dateTime = sample_date_time and now = 0] z
    by blast
  ultimately show ?thesis
    using o s g z by simp
qed

section \<open>Properties of the paginated fetch\<close>

lemma js_lt_nat: "js_lt (Fin (of_nat a)) (Fin (of_nat b)) = (a < b)"
  by simp

lemma per_page_nat:
  assumes "a < L"
  shows "js_min (Fin 250) (js_sub (Fin (of_nat L)) (Fin (of_nat a))) =
     Fin (of_nat (min 250 (L - a)))"
proof -
  have "(of_nat L :: rat) - of_nat a = of_nat (L - a)"
    using assms by (simp add: of_nat_diff)
  then have sub: "js_sub (Fin (of_nat L)) (Fin (of_nat a)) = Fin (of_nat (L - a))"
    by (simp only: js_sub.simps)
  have m: "js_min (Fin 250) (Fin (of_nat k)) = Fin (of_nat (min 250 k))" for k :: nat
  proof (cases "250 \<le> k")
    case True
    then have "(250 :: rat) \<le> of_nat k"
      by (metis of_nat_le_iff of_nat_numeral)
    with True show ?thesis
      by (simp add: min_def)
  next
    case False
    then have "\<not> (250 :: rat) \<le> of_nat k"
      by (metis of_nat_le_iff of_nat_numeral)
    with False show ?thesis
      by (simp add: min_def)
  qed
  show ?thesis
    by (simp only: sub m)
qed

lemma trunc_nat: "trunc (of_nat n) = int n"
  by (simp add: trunc_def)

lemma slice0_nat: "slice0 xs (Fin (of_nat n)) = take n xs"
  by (simp add: trunc_nat)


lemma loop_exit:
  "is_done st \<or> \<not> js_lt (Fin (of_nat (length (allCustomers st)))) limitTotal \<Longrightarrow>
   pagination_loop get limitTotal w st =
     Some (Inr (slice0 (allCustomers st) limitTotal), requests st, w)"
  by (subst pagination_loop.simps) auto

lemma loop_step_any:
  assumes "\<not> is_done st"
    and "js_lt (Fin (of_nat (length (allCustomers st)))) limitTotal"
    and "js_min (Fin 250) (js_sub limitTotal (Fin (of_nat (length (allCustomers st))))) = perPage"
    and "get w \<lparr>limit = perPage, page_info = url_cursor (pageInfo st)\<rparr> = (Responded resp, w')"
    and "ok resp" and "customers_of (json resp) = Some cs"
  shows "pagination_loop get limitTotal w st =
     pagination_loop get limitTotal w'
       \<lparr>allCustomers = allCustomers st @ cs,
        pageInfo = fst (parse_link (pageInfo st) (link resp)),
        is_done = snd (parse_link (pageInfo st) (link resp)),
        requests = requests st @
          [(length (allCustomers st), \<lparr>limit = perPage, page_info = url_cursor (pageInfo st)\<rparr>)]\<rparr>"
proof -
  have "(case json resp of Inl m \<Rightarrow> None
         | Inr d \<Rightarrow> Some (case d of Some c \<Rightarrow> c | None \<Rightarrow> [])) = Some cs"
    using assms(6) by (simp add: customers_of_def split: sum.splits option.splits)
  then show ?thesis
    using assms(1-5)
    by (subst pagination_loop.simps) (simp add: Let_def split: sum.splits)
qed

lemma loop_step:
  assumes "\<not> is_done st" and "length (allCustomers st) < L"
    and "get w \<lparr>limit = Fin (of_nat (min 250 (L - length (allCustomers st)))),
                 page_info = url_cursor (pageInfo st)\<rparr> = (Responded resp, w')"
    and "ok resp" and "customers_of (json resp) = Some cs"
  shows "pagination_loop get (Fin (of_nat L)) w st =
     pagination_loop get (Fin (of_nat L)) w'
       \<lparr>allCustomers = allCustomers st @ cs,
        pageInfo = fst (parse_link (pageInfo st) (link resp)),
        is_done = snd (parse_link (pageInfo st) (link resp)),
        requests = requests st @
          [(length (allCustomers st),
            \<lparr>limit = Fin (of_nat (min 250 (L - length (allCustomers st)))),
             page_info = url_cursor (pageInfo st)\<rparr>)]\<rparr>"
proof -
  have lt: "js_lt (Fin (of_nat (length (allCustomers st)))) (Fin (of_nat L))"
    using assms(2) by simp
  show ?thesis
    using assms(1) lt per_page_nat [OF assms(2)] assms(3) assms(4) assms(5)
    by (rule loop_step_any)
qed

lemma loop_exit_nat:
  assumes "is_done st \<or> \<not> length (allCustomers st) < L"
  shows "pagination_loop get (Fin (of_nat L)) w st =
     Some (Inr (take L (allCustomers st)), requests st, w)"
proof -
  have "is_done st \<or> \<not> js_lt (Fin (of_nat (length (allCustomers st)))) (Fin (of_nat L))"
    using assms by simp
  from loop_exit [OF this] show ?thesis
    by (simp only: slice0_nat)
qed






lemma no_next_cursor_done: "spec_no_next_cursor h \<Longrightarrow> snd (parse_link p h) = True"
  by (cases h)
    (auto simp: spec_no_next_cursor_def parse_link_def Let_def split: option.splits)





text \<open>
  Claim C8.  For every limit \<open>limit_total > 0\<close>, when the first response succeeds and its
  \<^verbatim>\<open>Link\<close> header gives no next cursor, the fetch issues exactly one request and returns the
  records of that page, truncated to \<open>limit_total\<close>.
\<close>

theorem single_request_without_next:
  fixes get :: "'w \<Rightarrow> customers_request \<Rightarrow> 'c fetch_result \<times> 'w"
  shows "0 < limit_total \<and>
   get w \<lparr>limit = Fin (of_nat (min 250 limit_total)), page_info = None\<rparr> = (Responded resp, w') \<and>
   ok resp \<and> customers_of (json resp) = Some page \<and> spec_no_next_cursor (link resp) \<longrightarrow>
   fetchShopifyCustomersPaginated get (Fin (of_nat limit_total)) w =
     Some (Inr (take limit_total page),
           [(0, \<lparr>limit = Fin (of_nat (min 250 limit_total)), page_info = None\<rparr>)], w')"
proof (intro impI, elim conjE)
  let ?st = "\<lparr>allCustomers = [], pageInfo = None, is_done = False, requests = []\<rparr>
      :: 'c loop_state"
  assume pos: "0 < limit_total"
    and g: "get w \<lparr>limit = Fin (of_nat (min 250 limit_total)), page_info = None\<rparr> =
      (Responded resp, w')"
    and okr: "ok resp" and c: "customers_of (json resp) = Some page"
    and nonext: "spec_no_next_cursor (link resp)"
  have fin: "snd (parse_link None (link resp)) = True"
    using nonext by (rule no_next_cursor_done)
  have "pagination_loop get (Fin (of_nat limit_total)) w ?st =
      pagination_loop get (Fin (of_nat limit_total)) w'
        \<lparr>allCustomers = allCustomers ?st @ page,
         pageInfo = fst (parse_link (pageInfo ?st) (link resp)),
         is_done = snd (parse_link (pageInfo ?st) (link resp)),
         requests = requests ?st @
           [(length (allCustomers ?st),
             \<lparr>limit = Fin (of_nat (min 250 (limit_total - length (allCustomers ?st)))),
              page_info = url_cursor (pageInfo ?st)\<rparr>)]\<rparr>"
    using pos g okr c by (intro loop_step) (simp_all add: url_cursor_def)
  also have "\<dots> = Some (Inr (take limit_total page),
      [(0, \<lparr>limit = Fin (of_nat (min 250 limit_total)), page_info = None\<rparr>)], w')"
    using fin by (subst loop_exit_nat) (simp_all add: url_cursor_def)
  finally show "fetchShopifyCustomersPaginated get (Fin (of_nat limit_total)) w =
     Some (Inr (take limit_total page),
           [(0, \<lparr>limit = Fin (of_nat (min 250 limit_total)), page_info = None\<rparr>)], w')"
    by (simp add: fetchShopifyCustomersPaginated_def)
qed


text \<open>
  A page of three records asked for 2, with no header, with a header that has only a
  previous link, and with a next link that carries no \<^verbatim>\<open>page_info\<close>.
\<close>

theorem single_request_without_next_witness:
  "spec_no_next_cursor None \<and> spec_no_next_cursor (Some previous_link) \<and>
   spec_no_next_cursor (Some broken_next_link) \<and> \<not> spec_no_next_cursor (Some next_link) \<and>
   fetchShopifyCustomersPaginated (single_page None) (Fin (of_nat 2)) () =
     Some (Inr [''ann'', ''bob''], [(0, \<lparr>limit = Fin 2, page_info = None\<rparr>)], ()) \<and>
   fetchShopifyCustomersPaginated (single_page (Some previous_link)) (Fin (of_nat 2)) () =
     Some (Inr [''ann'', ''bob''], [(0, \<lparr>limit = Fin 2, page_info = None\<rparr>)], ()) \<and>
   fetchShopifyCustomersPaginated (single_page (Some broken_next_link)) (Fin (of_nat 2)) () =
     Some (Inr [''ann'', ''bob''], [(0, \<lparr>limit = Fin 2, page_info = None\<rparr>)], ())"
proof -
  have n1: "spec_no_next_cursor None"
    by code_simp
  have n2: "spec_no_next_cursor (Some previous_link)"
    by code_simp
  have n3: "spec_no_next_cursor (Some broken_next_link)"
    by code_simp
  have n4: "\<not> spec_no_next_cursor (Some next_link)"
    by code_simp
  have one: "fetchShopifyCustomersPaginated (single_page h) (Fin (of_nat 2)) () =
      Some (Inr [''ann'', ''bob''], [(0, \<lparr>limit = Fin 2, page_info = None\<rparr>)], ())"
    if "spec_no_next_cursor h" for h
    using single_request_without_next [where get = "single_page h" and limit_total = 2
        and w = "()" and w' = "()" and page = "[''ann'', ''bob'', ''cy'']"
        and resp = "\<lparr>ok = True, status = 200, body_text = [],
                 json = Inr (Some [''ann'', ''bob'', ''cy'']), link = h\<rparr>"] that
    by (simp add: single_page_def customers_of_def)
  show ?thesis
    using n1 n2 n3 n4 one [OF n1] one [OF n2] one [OF n3] by simp
qed

section \<open>Properties of the batch endpoint\<close>

lemma recommendations_loop_filter:
  "recommendations_loop fmt up cfg cs =
     filter spec_keep (List.map_filter (\<lambda>c. applyRuleConfigToCustomer fmt up c cfg) cs)"
  by (induction cs) (simp_all add: List.map_filter_simps spec_keep_def split: option.splits)

lemma subscribers_loop_sent:
  "fst (snd (subscribers_loop fmt sv gid rs (added, sent, w))) =
     sent @ map (subscriber_request_of fmt gid) rs"
proof (induction rs arbitrary: added sent w)
  case Nil
  show ?case by simp
next
  case (Cons r rs)
  show ?case
  proof (cases "post_subscriber sv w (subscriber_request_of fmt gid r)")
    case (Pair b w')
    then show ?thesis
      using Cons [of "added + 1" "sent @ [subscriber_request_of fmt gid r]" w']
        Cons [of added "sent @ [subscriber_request_of fmt gid r]" w']
      by (cases b) (simp_all add: subscriber_request_of_def Let_def)
  qed
qed

lemma mailer_lite_block_sent:
  "mailer_lite_block rt e sv w body strategy recs = (out, sent, w') \<Longrightarrow>
   (sent = [] \<and> (\<exists>code text. out = Inl (code, text))) \<or>
   (\<exists>gid ml. out = Inr ml \<and> sent = map (subscriber_request_of (number_format rt) gid) recs)"
proof -
  assume a: "mailer_lite_block rt e sv w body strategy recs = (out, sent, w')"
  have loop: "\<exists>added w3. subscribers_loop (number_format rt) sv gid recs (0, [], w2) =
      (added, map (subscriber_request_of (number_format rt) gid) recs, w3)" for gid w2
    using subscribers_loop_sent [of "number_format rt" sv gid recs 0 "[]" w2]
    by (cases "subscribers_loop (number_format rt) sv gid recs (0, [], w2)") auto
  show ?thesis
  proof (cases "truthy_str (MAILERLITE_API_KEY e)")
    case False
    with a show ?thesis
      by (auto simp: mailer_lite_block_def)
  next
    case key: True
    show ?thesis
    proof (cases "post_group sv w (str_or (campaignName body)
        (''Dynamic Pricing Batch - '' @ strategy @ '' - '' @ locale_date rt))")
      case (Pair f w2)
      show ?thesis
      proof (cases f)
        case (FetchRejected m)
        with a key Pair show ?thesis
          by (auto simp: mailer_lite_block_def)
      next
        case (FetchResolved groupResponse)
        show ?thesis
        proof (cases "r_json groupResponse")
          case (Inl m)
          with a key Pair FetchResolved show ?thesis
            by (auto simp: mailer_lite_block_def)
        next
          case (Inr groupData)
          show ?thesis
          proof (cases "truthy_str (data_id groupData)")
            case False
            with a key Pair FetchResolved Inr show ?thesis
              by (auto simp: mailer_lite_block_def)
          next
            case True
            then obtain gid where gid: "data_id groupData = Some gid"
              by (cases "data_id groupData") auto
            from loop [of gid w2] obtain added w3 where
              "subscribers_loop (number_format rt) sv gid recs (0, [], w2) =
                 (added, map (subscriber_request_of (number_format rt) gid) recs, w3)"
              by blast
            with a key Pair FetchResolved Inr True gid show ?thesis
              by (auto simp: mailer_lite_block_def Let_def)
          qed
        qed
      qed
    qed
  qed
qed


lemma batch_early_replies:
  assumes "ruleConfig body = None \<or> \<not> truthy_str (SHOPIFY_API_KEY e) \<or>
      \<not> truthy_str (SHOPIFY_STORE e)"
  shows "\<exists>text. post_reactivation_batch rt e sv w body = Some (Reply 400 (BatchError text), [], w)"
  using assms by (auto simp: post_reactivation_batch_def)

lemma batch_after_checks:
  assumes "ruleConfig body = Some cfg" and "truthy_str (SHOPIFY_API_KEY e)"
    and "truthy_str (SHOPIFY_STORE e)"
  shows "post_reactivation_batch rt e sv w body =
     (case fetchShopifyCustomersPaginated (get_customers sv) (batch_limit e body) w of
        None \<Rightarrow> None
      | Some (Inl err, _, w1) \<Rightarrow>
          Some (Reply 500 (BatchError (str_or (Some (message err)) ''Unknown error'')), [], w1)
      | Some (Inr rawCustomers, _, w1) \<Rightarrow>
          (let strategy = (case pricingStrategy body of None \<Rightarrow> ''reactivation'' | Some s \<Rightarrow> s);
               recs = recommendations_loop (number_format rt) (upper_case rt) (ruleConfig body)
                        (batch_metrics rt rawCustomers);
               result = (\<lambda>ml.
                 \<lparr>success = True,
                  res_pricingStrategy = strategy,
                  totalCustomersFetched = length (batch_metrics rt rawCustomers),
                  totalRecommendations = length recs,
                  sampleRecommendations = take 20 recs,
                  mailerLiteResult = ml\<rparr>)
           in if sendToMailerLite body then
                (case mailer_lite_block rt e sv w1 body strategy recs of
                   (Inl (code, text), sent, w2) \<Rightarrow> Some (Reply code (BatchError text), sent, w2)
                 | (Inr ml, sent, w2) \<Rightarrow>
                     Some (Reply 200 (BatchResult (result (Some ml))), sent, w2))
              else Some (Reply 200 (BatchResult (result None)), [], w1)))"
  using assms
  by (simp add: post_reactivation_batch_def batch_limit_def batch_metrics_def Let_def
      split: option.splits sum.splits prod.splits)

text \<open>
  Claim C7.  Whatever the batch endpoint replies, of the recommendations the matcher
  produces only those with a discount percent greater than 0 and an email are kept: the
  total of the recommendations counts exactly the kept ones, the sample is the first 20
  of them, and the subscriber requests sent to MailerLite are those of the kept ones, none
  when the endpoint does not reach the subscriber loop.
\<close>

theorem batch_filter:
  "post_reactivation_batch rt e sv w body = Some (reply, sent, w') \<longrightarrow>
     (\<forall>status res. reply = Reply status (BatchResult res) \<longrightarrow>
        totalRecommendations res = length (spec_kept rt e sv w body) \<and>
        sampleRecommendations res = take 20 (spec_kept rt e sv w body) \<and>
        list_all spec_keep (sampleRecommendations res)) \<and>
     (sent = [] \<or>
      (\<exists>gid. sent = map (subscriber_request_of (number_format rt) gid) (spec_kept rt e sv w body))) \<and>
     list_all (\<lambda>q. truthy_str (sub_email q)) sent"
proof
  assume run: "post_reactivation_batch rt e sv w body = Some (reply, sent, w')"
  let ?kept = "spec_kept rt e sv w body"
  have kept_ok: "list_all spec_keep ?kept"
    by (simp add: spec_kept_def list_all_iff)
  have sample_ok: "list_all spec_keep (take 20 ?kept)"
    using kept_ok by (auto simp: list_all_iff dest: in_set_takeD)
  have emails: "list_all (\<lambda>q. truthy_str (sub_email q))
      (map (subscriber_request_of (number_format rt) gid) ?kept)" for gid
    using kept_ok by (simp add: list_all_iff subscriber_request_of_def spec_keep_def)
  have main: "(\<forall>status res. reply = Reply status (BatchResult res) \<longrightarrow>
        totalRecommendations res = length ?kept \<and> sampleRecommendations res = take 20 ?kept) \<and>
     (sent = [] \<or> (\<exists>gid. sent = map (subscriber_request_of (number_format rt) gid) ?kept))"
  proof (cases "ruleConfig body = None \<or> \<not> truthy_str (SHOPIFY_API_KEY e) \<or>
      \<not> truthy_str (SHOPIFY_STORE e)")
    case True
    from batch_early_replies [OF this, of rt sv w] run show ?thesis
      by auto
  next
    case False
    then obtain cfg where cfg: "ruleConfig body = Some cfg"
      and k1: "truthy_str (SHOPIFY_API_KEY e)" and k2: "truthy_str (SHOPIFY_STORE e)"
      by auto
    note unfold = batch_after_checks [OF cfg k1 k2, of rt sv w]
    show ?thesis
    proof (cases "fetchShopifyCustomersPaginated (get_customers sv) (batch_limit e body) w")
      case None
      with run unfold show ?thesis
        by simp
    next
      case (Some out)
      obtain r trace w1 where out: "out = (r, trace, w1)"
        by (cases out) auto
      show ?thesis
      proof (cases r)
        case (Inl err)
        with run unfold Some out show ?thesis
          by auto
      next
        case (Inr raws)
        have kept: "recommendations_loop (number_format rt) (upper_case rt) (ruleConfig body)
            (batch_metrics rt raws) = ?kept"
          using Some out Inr
          by (simp add: recommendations_loop_filter spec_kept_def matcher_output_def
              fetched_customers_def)
        show ?thesis
        proof (cases "sendToMailerLite body")
          case False
          with run unfold Some out Inr kept show ?thesis
            by (auto simp: Let_def)
        next
          case send: True
          let ?strategy = "case pricingStrategy body of None \<Rightarrow> ''reactivation'' | Some s \<Rightarrow> s"
          obtain mo msent mw where ml: "mailer_lite_block rt e sv w1 body ?strategy ?kept =
              (mo, msent, mw)"
            by (cases "mailer_lite_block rt e sv w1 body ?strategy ?kept") auto
          from mailer_lite_block_sent [OF ml] ml run unfold Some out Inr kept send show ?thesis
            by (auto simp: Let_def)
        qed
      qed
    qed
  qed
  show "(\<forall>status res. reply = Reply status (BatchResult res) \<longrightarrow>
        totalRecommendations res = length ?kept \<and>
        sampleRecommendations res = take 20 ?kept \<and>
        list_all spec_keep (sampleRecommendations res)) \<and>
     (sent = [] \<or> (\<exists>gid. sent = map (subscriber_request_of (number_format rt) gid) ?kept)) \<and>
     list_all (\<lambda>q. truthy_str (sub_email q)) sent"
    using main sample_ok emails by auto
qed


text \<open>
  The matcher produces a recommendation for each of the three customers; the one without
  an email and the one of 0 percent are dropped.
\<close>

theorem batch_filter_witness:
  "post_reactivation_batch sample_runtime sample_env sample_services sample_store sample_body =
     Some (Reply 200 (BatchResult
             \<lparr>success = True, res_pricingStrategy = ''reactivation'', totalCustomersFetched = 3,
              totalRecommendations = 1, sampleRecommendations = [ann_recommendation],
              mailerLiteResult = Some \<lparr>groupId = ''g1'', addedCount = 1\<rparr>\<rparr>),
           [subscriber_request_of (\<lambda>q. []) ''g1'' ann_recommendation], []) \<and>
   map (\<lambda>r. (rec_email r, discountPercent r)) (matcher_output sample_runtime sample_body sample_store) =
     [(Some ''ann@example.com'', Fin 20), (None, Fin 20), (Some ''cy@example.com'', Fin 0)] \<and>
   spec_kept sample_runtime sample_env sample_services sample_store sample_body =
     [ann_recommendation] \<and>
   spec_keep ann_recommendation"
proof -
  let ?res = "\<lparr>success = True, res_pricingStrategy = ''reactivation'', totalCustomersFetched = 3,
      totalRecommendations = 1, sampleRecommendations = [ann_recommendation],
      mailerLiteResult = Some \<lparr>groupId = ''g1'', addedCount = 1\<rparr>\<rparr>"
  have run: "post_reactivation_batch sample_runtime sample_env sample_services sample_store
      sample_body =
      Some (Reply 200 (BatchResult ?res),
            [subscriber_request_of (\<lambda>q. []) ''g1'' ann_recommendation], [])"
    by code_simp
  have produced: "map (\<lambda>r. (rec_email r, discountPercent r))
      (matcher_output sample_runtime sample_body sample_store) =
      [(Some ''ann@example.com'', Fin 20), (None, Fin 20), (Some ''cy@example.com'', Fin 0)]"
    by code_simp
  note inst = batch_filter [where rt = sample_runtime and e = sample_env and sv = sample_services
      and w = sample_store and body = sample_body and reply = "Reply 200 (BatchResult ?res)"
      and sent = "[subscriber_request_of (\<lambda>q. []) ''g1'' ann_recommendation]" and w' = "[]"]
  from inst run have "sampleRecommendations ?res =
      take 20 (spec_kept sample_runtime sample_env sample_services sample_store sample_body)"
    and len: "totalRecommendations ?res =
      length (spec_kept sample_runtime sample_env sample_services sample_store sample_body)"
    and ok: "list_all spec_keep (sampleRecommendations ?res)"
    by blast+
  then have kept: "spec_kept sample_runtime sample_env sample_services sample_store sample_body =
      [ann_recommendation]"
    by (cases "spec_kept sample_runtime sample_env sample_services sample_store sample_body")
      simp_all
  from ok have "spec_keep ann_recommendation"
    by simp
  with run produced kept show ?thesis
    by simp
qed

section \<open>Properties of the discounts endpoint\<close>

lemma create_loop_accounts:
  "attempted (create_loop fmt api entries st) = attempted st @ map fst entries \<and>
   (\<forall>c. count_list (map cc_code (createdCodes (create_loop fmt api entries st))) c +
        count_list (map fc_code (failedCodes (create_loop fmt api entries st))) c =
        count_list (map cc_code (createdCodes st)) c + count_list (map fc_code (failedCodes st)) c +
        count_list (map fst entries) c)"
proof (induction entries arbitrary: st)
  case Nil
  show ?case by simp
next
  case (Cons entry entries)
  obtain code percentage where entry: "entry = (code, percentage)"
    by (cases entry) auto
  obtain res w' where one: "create_one fmt api (world st) code percentage = (res, w')"
    by (cases "create_one fmt api (world st) code percentage") auto
  show ?case
  proof (cases res)
    case (Inl err)
    let ?st' = "st\<lparr>failedCodes := failedCodes st @ [\<lparr>fc_code = code, fc_error = message err\<rparr>],
        attempted := attempted st @ [code], world := w'\<rparr>"
    have "create_loop fmt api (entry # entries) st = create_loop fmt api entries ?st'"
      using entry one Inl by simp
    with Cons [of ?st'] entry show ?thesis
      by simp
  next
    case (Inr u)
    let ?st' = "st\<lparr>createdCodes := createdCodes st @ [\<lparr>cc_code = code, cc_percentage = percentage\<rparr>],
        attempted := attempted st @ [code], world := w'\<rparr>"
    have "create_loop fmt api (entry # entries) st = create_loop fmt api entries ?st'"
      using entry one Inr by simp
    with Cons [of ?st'] entry show ?thesis
      by simp
  qed
qed

text \<open>
  The keys of \<^verbatim>\<open>uniqueCodes\<close> are distinct, so every code is attempted at most once; a
  recommendation with no code, an empty code or a percent that is no number changes
  nothing.
\<close>

lemma assign_keys:
  "map fst (assign obj k v) =
     (if k \<in> set (map fst obj) \<or> k = ''__proto__'' then map fst obj else map fst obj @ [k])"
proof -
  have "map fst (map (\<lambda>p. if fst p = k then (k, v) else p) obj) = map fst obj"
    by (induction obj) auto
  then show ?thesis
    by (simp add: assign_def)
qed

lemma collect_code_distinct:
  "distinct (map fst obj) \<Longrightarrow> distinct (map fst (collect_code obj r))"
  by (auto simp: collect_code_def assign_keys split: option.splits)

lemma foldl_collect_distinct:
  "distinct (map fst obj) \<Longrightarrow> distinct (map fst (foldl collect_code obj recs))"
  by (induction recs arbitrary: obj) (simp_all add: collect_code_distinct)

lemma unique_codes_distinct: "distinct (map fst (unique_codes recs))"
  by (simp add: unique_codes_def foldl_collect_distinct)

lemma object_entries_distinct:
  assumes "distinct (map fst obj)"
  shows "distinct (map fst (object_entries obj))"
proof -
  let ?ix = "filter (\<lambda>p. is_array_index (fst p)) obj"
  let ?rest = "filter (\<lambda>p. \<not> is_array_index (fst p)) obj"
  have d: "distinct obj" and inj: "inj_on fst (set obj)"
    using assms by (simp_all add: distinct_map)
  have "distinct (sort_key (\<lambda>p. digits_value (fst p)) ?ix @ ?rest)"
    using d by auto
  moreover have "set (sort_key (\<lambda>p. digits_value (fst p)) ?ix @ ?rest) \<subseteq> set obj"
    by auto
  ultimately show ?thesis
    unfolding object_entries_def distinct_map
    using inj by (blast intro: inj_on_subset)
qed

lemma collect_code_skips:
  "rec_discountCode r = None \<or> rec_discountCode r = Some [] \<or> rec_discountPercent r = None \<Longrightarrow>
   collect_code obj r = obj"
  by (auto simp: collect_code_def split: option.splits)

text \<open>
  The loop puts every outcome in its list: the created codes are the successes and the
  failed codes the failures, in the order of the entries, and no code is in both.
\<close>

lemma create_loop_outcomes:
  "createdCodes (create_loop fmt api entries st) =
     createdCodes st @ spec_created (creation_outcomes fmt api (world st) entries) \<and>
   failedCodes (create_loop fmt api entries st) =
     failedCodes st @ spec_failed (creation_outcomes fmt api (world st) entries)"
proof (induction entries arbitrary: st)
  case Nil
  show ?case
    by (simp add: spec_created_def spec_failed_def List.map_filter_simps)
next
  case (Cons entry entries)
  obtain code percentage where entry: "entry = (code, percentage)"
    by (cases entry) auto
  obtain res w' where one: "create_one fmt api (world st) code percentage = (res, w')"
    by (cases "create_one fmt api (world st) code percentage") auto
  show ?case
  proof (cases res)
    case (Inl err)
    let ?st' = "st\<lparr>failedCodes := failedCodes st @ [\<lparr>fc_code = code, fc_error = message err\<rparr>],
        attempted := attempted st @ [code], world := w'\<rparr>"
    have "create_loop fmt api (entry # entries) st = create_loop fmt api entries ?st'"
      using entry one Inl by simp
    with Cons [of ?st'] entry one Inl show ?thesis
      by (simp add: spec_created_def spec_failed_def List.map_filter_simps)
  next
    case (Inr u)
    let ?st' = "st\<lparr>createdCodes := createdCodes st @ [\<lparr>cc_code = code, cc_percentage = percentage\<rparr>],
        attempted := attempted st @ [code], world := w'\<rparr>"
    have "create_loop fmt api (entry # entries) st = create_loop fmt api entries ?st'"
      using entry one Inr by simp
    with Cons [of ?st'] entry one Inr show ?thesis
      by (simp add: spec_created_def spec_failed_def List.map_filter_simps)
  qed
qed

lemma creation_outcomes_codes: "map fst (creation_outcomes fmt api w entries) = map fst entries"
proof (induction entries arbitrary: w)
  case Nil
  show ?case by simp
next
  case (Cons entry entries)
  then show ?case
    by (cases entry) (simp split: prod.splits)
qed

lemma outcomes_placed:
  "(code, percentage, res) \<in> set outs \<Longrightarrow>
   (case res of
      Inl e \<Rightarrow> \<lparr>fc_code = code, fc_error = message e\<rparr> \<in> set (spec_failed outs)
    | Inr u \<Rightarrow> \<lparr>cc_code = code, cc_percentage = percentage\<rparr> \<in> set (spec_created outs))"
  by (cases res) (force simp: spec_created_def spec_failed_def List.map_filter_def)+


lemma outcomes_exclusive:
  assumes d: "distinct (map fst outs)" and m: "(code, percentage, res) \<in> set outs"
  shows "case res of
      Inl e \<Rightarrow> code \<notin> set (map cc_code (spec_created outs))
    | Inr u \<Rightarrow> code \<notin> set (map fc_code (spec_failed outs))"
proof (cases res)
  case (Inl e)
  have "code \<notin> set (map cc_code (spec_created outs))"
  proof
    assume "code \<in> set (map cc_code (spec_created outs))"
    then obtain p u where "(code, p, Inr u) \<in> set outs"
      by (auto simp: spec_created_def List.map_filter_def split: sum.splits)
    with d m Inl have "(percentage, Inl e :: js_error + unit) = (p, Inr u)"
      using eq_key_imp_eq_value by metis
    then show False
      by simp
  qed
  with Inl show ?thesis
    by simp
next
  case (Inr u)
  have "code \<notin> set (map fc_code (spec_failed outs))"
  proof
    assume "code \<in> set (map fc_code (spec_failed outs))"
    then obtain p e where "(code, p, Inl e) \<in> set outs"
      by (auto simp: spec_failed_def List.map_filter_def split: sum.splits)
    with d m Inr have "(percentage, Inr u :: js_error + unit) = (p, Inl e)"
      using eq_key_imp_eq_value by metis
    then show False
      by simp
  qed
  with Inr show ?thesis
    by simp
qed

text \<open>
  Claim C4 as stated fails where the credentials are absent: the endpoint then answers
  400, as the other endpoints do, not 500.
\<close>

theorem missing_credentials_counterexample:
  "\<not> configured no_key_env \<and>
   fst (post_shopify_discounts (\<lambda>q. []) no_key_env sample_admin 1 (Some sample_recs)) =
     Reply 400 (DiscountsError ''Shopify credentials not configured'') \<and>
   reply_status (fst (post_shopify_discounts (\<lambda>q. []) no_key_env sample_admin 1 (Some sample_recs)))
     \<noteq> 500"
  by code_simp

text \<open>
  Claim C4, amended.  The endpoint answers 400 when the Shopify credentials are absent,
  and 400 when they are present and the recommendations are absent or empty.  Otherwise
  it answers 200 with the created and the failed codes: every code to create is attempted,
  in order, whatever happened to the codes before it; a code whose creation fails is in
  the failed codes, with the message of its error, and not in the created codes; a code
  whose creation succeeds is in the created codes, with its percent, and not in the failed
  codes.
\<close>

theorem discounts_endpoint_replies:
  "(\<not> configured e \<longrightarrow>
      fst (post_shopify_discounts fmt e api w recs) =
        Reply 400 (DiscountsError ''Shopify credentials not configured'')) \<and>
   (configured e \<and> (recs = None \<or> recs = Some []) \<longrightarrow>
      fst (post_shopify_discounts fmt e api w recs) =
        Reply 400 (DiscountsError ''No recommendations provided to create discounts.'')) \<and>
   (configured e \<and> recs = Some (r # rs) \<longrightarrow>
      fst (post_shopify_discounts fmt e api w recs) =
        Reply 200 (DiscountsResult (spec_created (discount_outcomes fmt api w (r # rs)))
                                   (spec_failed (discount_outcomes fmt api w (r # rs)))) \<and>
      map fst (discount_outcomes fmt api w (r # rs)) = codes_to_create (r # rs) \<and>
      attempted (snd (post_shopify_discounts fmt e api w recs)) = codes_to_create (r # rs) \<and>
      (\<forall>(code, percentage, res) \<in> set (discount_outcomes fmt api w (r # rs)).
         case res of
           Inl err \<Rightarrow>
             \<lparr>fc_code = code, fc_error = message err\<rparr> \<in>
               set (spec_failed (discount_outcomes fmt api w (r # rs))) \<and>
             code \<notin> set (map cc_code (spec_created (discount_outcomes fmt api w (r # rs))))
         | Inr u \<Rightarrow>
             \<lparr>cc_code = code, cc_percentage = percentage\<rparr> \<in>
               set (spec_created (discount_outcomes fmt api w (r # rs))) \<and>
             code \<notin> set (map fc_code (spec_failed (discount_outcomes fmt api w (r # rs))))) \<and>
      (\<forall>c. count_list (map cc_code (spec_created (discount_outcomes fmt api w (r # rs)))) c +
           count_list (map fc_code (spec_failed (discount_outcomes fmt api w (r # rs)))) c =
           count_list (codes_to_create (r # rs)) c))"
proof (intro conjI impI)
  assume "\<not> configured e"
  then show "fst (post_shopify_discounts fmt e api w recs) =
      Reply 400 (DiscountsError ''Shopify credentials not configured'')"
    by (auto simp: post_shopify_discounts_def configured_def Let_def)
next
  assume "configured e \<and> (recs = None \<or> recs = Some [])"
  then show "fst (post_shopify_discounts fmt e api w recs) =
      Reply 400 (DiscountsError ''No recommendations provided to create discounts.'')"
    by (auto simp: post_shopify_discounts_def configured_def Let_def)
next
  assume a: "configured e \<and> recs = Some (r # rs)"
  let ?start = "\<lparr>createdCodes = [], failedCodes = [], attempted = [], world = w\<rparr>"
  let ?entries = "object_entries (unique_codes (r # rs))"
  let ?fin = "create_loop fmt api ?entries ?start"
  let ?outs = "discount_outcomes fmt api w (r # rs)"
  have run: "post_shopify_discounts fmt e api w recs =
      (Reply 200 (DiscountsResult (createdCodes ?fin) (failedCodes ?fin)), ?fin)"
    using a by (simp add: post_shopify_discounts_def configured_def Let_def)
  from create_loop_outcomes [of fmt api ?entries ?start]
  have cr: "createdCodes ?fin = spec_created ?outs" and fl: "failedCodes ?fin = spec_failed ?outs"
    by (simp_all add: discount_outcomes_def)
  from create_loop_accounts [of fmt api ?entries ?start]
  have att: "attempted ?fin = codes_to_create (r # rs)"
    and cnt: "\<forall>c. count_list (map cc_code (createdCodes ?fin)) c +
        count_list (map fc_code (failedCodes ?fin)) c = count_list (codes_to_create (r # rs)) c"
    by (simp_all add: codes_to_create_def)
  have codes: "map fst ?outs = codes_to_create (r # rs)"
    by (simp add: discount_outcomes_def creation_outcomes_codes codes_to_create_def)
  have dist: "distinct (map fst ?outs)"
    unfolding codes codes_to_create_def
    by (intro object_entries_distinct unique_codes_distinct)
  show "fst (post_shopify_discounts fmt e api w recs) =
      Reply 200 (DiscountsResult (spec_created ?outs) (spec_failed ?outs))"
    using run cr fl by simp
  show "map fst ?outs = codes_to_create (r # rs)"
    by (rule codes)
  show "attempted (snd (post_shopify_discounts fmt e api w recs)) = codes_to_create (r # rs)"
    using run att by simp
  show "\<forall>(code, percentage, res) \<in> set ?outs.
         case res of
           Inl err \<Rightarrow>
             \<lparr>fc_code = code, fc_error = message err\<rparr> \<in> set (spec_failed ?outs) \<and>
             code \<notin> set (map cc_code (spec_created ?outs))
         | Inr u \<Rightarrow>
             \<lparr>cc_code = code, cc_percentage = percentage\<rparr> \<in> set (spec_created ?outs) \<and>
             code \<notin> set (map fc_code (spec_failed ?outs))"
  proof (intro ballI, clarify)
    fix code percentage res
    assume m: "(code, percentage, res) \<in> set ?outs"
    from outcomes_placed [OF m] outcomes_exclusive [OF dist m]
    show "case res of
           Inl err \<Rightarrow>
             \<lparr>fc_code = code, fc_error = message err\<rparr> \<in> set (spec_failed ?outs) \<and>
             code \<notin> set (map cc_code (spec_created ?outs))
         | Inr u \<Rightarrow>
             \<lparr>cc_code = code, cc_percentage = percentage\<rparr> \<in> set (spec_created ?outs) \<and>
             code \<notin> set (map fc_code (spec_failed ?outs))"
      by (cases res) simp_all
  qed
  show "\<forall>c. count_list (map cc_code (spec_created ?outs)) c +
           count_list (map fc_code (spec_failed ?outs)) c =
           count_list (codes_to_create (r # rs)) c"
    using cnt cr fl by simp
qed


theorem discounts_endpoint_replies_witness:
  "\<not> configured no_key_env \<and> configured sample_env \<and>
   fst (post_shopify_discounts (\<lambda>q. []) no_key_env sample_admin 1 (Some sample_recs)) =
     Reply 400 (DiscountsError ''Shopify credentials not configured'') \<and>
   fst (post_shopify_discounts (\<lambda>q. []) sample_env sample_admin 1 (Some [])) =
     Reply 400 (DiscountsError ''No recommendations provided to create discounts.'') \<and>
   fst (post_shopify_discounts (\<lambda>q. []) sample_env sample_admin 1 None) =
     Reply 400 (DiscountsError ''No recommendations provided to create discounts.'') \<and>
   discount_outcomes (\<lambda>q. []) sample_admin 1 sample_recs =
     [(''GOOD10'', Fin 10, Inr ()),
      (''BAD'', Fin 15, Inl (Error ''Price rule creation failed: {errors: invalid}'')),
      (''GOOD20'', Fin 20, Inr ())] \<and>
   fst (post_shopify_discounts (\<lambda>q. []) sample_env sample_admin 1 (Some sample_recs)) =
     Reply 200 (DiscountsResult
       [\<lparr>cc_code = ''GOOD10'', cc_percentage = Fin 10\<rparr>,
        \<lparr>cc_code = ''GOOD20'', cc_percentage = Fin 20\<rparr>]
       [\<lparr>fc_code = ''BAD'', fc_error = ''Price rule creation failed: {errors: invalid}''\<rparr>]) \<and>
   attempted (snd (post_shopify_discounts (\<lambda>q. []) sample_env sample_admin 1 (Some sample_recs))) =
     [''GOOD10'', ''BAD'', ''GOOD20'']"
proof -
  let ?outs = "[(''GOOD10'', Fin 10, Inr ()),
      (''BAD'', Fin 15, Inl (Error ''Price rule creation failed: {errors: invalid}'')),
      (''GOOD20'', Fin 20, Inr ())] :: (string \<times> jsnum \<times> (js_error + unit)) list"
  have c1: "\<not> configured no_key_env"
    by code_simp
  have c2: "configured sample_env"
    by code_simp
  have e: "sample_recs = hd sample_recs # tl sample_recs"
    by (simp add: sample_recs_def)
  have codes: "codes_to_create (hd sample_recs # tl sample_recs) = [''GOOD10'', ''BAD'', ''GOOD20'']"
    by code_simp
  have outs: "discount_outcomes (\<lambda>q. []) sample_admin 1 (hd sample_recs # tl sample_recs) = ?outs"
    by code_simp
  have created: "spec_created ?outs =
      [\<lparr>cc_code = ''GOOD10'', cc_percentage = Fin 10\<rparr>,
       \<lparr>cc_code = ''GOOD20'', cc_percentage = Fin 20\<rparr>]"
    by code_simp
  have failed: "spec_failed ?outs =
      [\<lparr>fc_code = ''BAD'', fc_error = ''Price rule creation failed: {errors: invalid}''\<rparr>]"
    by code_simp
  have r1: "fst (post_shopify_discounts (\<lambda>q. []) no_key_env sample_admin 1 (Some sample_recs)) =
     Reply 400 (DiscountsError ''Shopify credentials not configured'')"
    by (rule discounts_endpoint_replies [where e = no_key_env, THEN conjunct1, THEN mp, OF c1])
  have r2: "fst (post_shopify_discounts (\<lambda>q. []) sample_env sample_admin 1 (Some [])) =
     Reply 400 (DiscountsError ''No recommendations provided to create discounts.'')"
    by (rule discounts_endpoint_replies [where e = sample_env and recs = "Some []",
          THEN conjunct2, THEN conjunct1, THEN mp]) (simp add: c2)
  have r3: "fst (post_shopify_discounts (\<lambda>q. []) sample_env sample_admin 1 None) =
     Reply 400 (DiscountsError ''No recommendations provided to create discounts.'')"
    by (rule discounts_endpoint_replies [where e = sample_env and recs = None,
          THEN conjunct2, THEN conjunct1, THEN mp]) (simp add: c2)
  have "configured sample_env \<and> Some sample_recs = Some (hd sample_recs # tl sample_recs)"
    using c2 e by simp
  note third = discounts_endpoint_replies [where e = sample_env and recs = "Some sample_recs"
        and r = "hd sample_recs" and rs = "tl sample_recs" and fmt = "\<lambda>q. []"
        and api = sample_admin and w = 1, THEN conjunct2, THEN conjunct2, THEN mp, OF this]
  have r4: "fst (post_shopify_discounts (\<lambda>q. []) sample_env sample_admin 1 (Some sample_recs)) =
     Reply 200 (DiscountsResult
       [\<lparr>cc_code = ''GOOD10'', cc_percentage = Fin 10\<rparr>,
        \<lparr>cc_code = ''GOOD20'', cc_percentage = Fin 20\<rparr>]
       [\<lparr>fc_code = ''BAD'', fc_error = ''Price rule creation failed: {errors: invalid}''\<rparr>])"
    using third [THEN conjunct1] by (simp only: outs created failed)
  have r5:
    "attempted (snd (post_shopify_discounts (\<lambda>q. []) sample_env sample_admin 1 (Some sample_recs))) =
     [''GOOD10'', ''BAD'', ''GOOD20'']"
    using third [THEN conjunct2, THEN conjunct2, THEN conjunct1] by (simp only: codes)
  have o: "discount_outcomes (\<lambda>q. []) sample_admin 1 sample_recs = ?outs"
    using outs e by simp
  show ?thesis
    using c1 c2 r1 r2 r3 r4 r5 o by blast
qed

text \<open>
  Claim C10 at two recommendations that share the code \<^verbatim>\<open>SAVE\<close>, the first of 0 percent
  and the second of 10: the test \<^verbatim>\<open>!uniqueCodes[rec.discountCode]\<close> takes the stored 0 for
  an absent entry, the second percent replaces the first, and the code is created with
  10 percent.
\<close>

theorem earliest_percent_overwritten:
  "unique_codes zero_first_recs = [(''SAVE'', Fin 10)] \<and>
   object_entries (unique_codes zero_first_recs) = [(''SAVE'', Fin 10)] \<and>
   createdCodes
     (create_loop (\<lambda>q. []) sample_admin (object_entries (unique_codes zero_first_recs))
        \<lparr>createdCodes = [], failedCodes = [], attempted = [], world = 1\<rparr>) =
     [\<lparr>cc_code = ''SAVE'', cc_percentage = Fin 10\<rparr>]"
  by code_simp

end
